theory Spec2Isabelle
  imports Complex_Main "HOL-Library.Word"
begin

unbundle bit_operations_syntax

section \<open>Strings and thrown values\<close>

text \<open>
  A JavaScript string is a sequence of UTF-16 code units. Literals of the source that are
  ASCII are written \<open>ascii ''...''\<close>; the Japanese literals are written as the list of
  their code units.
\<close>

type_synonym js_string = "16 word list"

definition ascii :: "string \<Rightarrow> js_string" where
  "ascii s = map (\<lambda>c. of_char c) s"

text \<open>
  What a \<open>try\<close> block of the source can catch: the two built-in errors that the handlers
  can raise themselves, and a failure of an external call (platform API, completion API,
  acknowledgement), which carries whatever message the external library gave it.
\<close>

datatype js_error = TypeError | SyntaxError | Failure js_string

text \<open>
  A property that holds a string when it holds anything: it is not there (reading it gives
  \<open>undefined\<close>), or it is \<open>null\<close>, or it is the string.
\<close>

datatype nullable = Absent | Null | Str js_string

section \<open>Startup configuration (app.js, lines 5-19)\<close>

text \<open>\<open>process.env\<close>: a variable is unset or holds a string.\<close>

type_synonym process_env = "js_string \<rightharpoonup> js_string"

definition requiredEnvVars :: "js_string list" where
  "requiredEnvVars =
     [ascii ''SLACK_BOT_TOKEN'', ascii ''SLACK_SIGNING_SECRET'',
      ascii ''SLACK_APP_TOKEN'', ascii ''OPENAI_API_KEY'']"

text \<open>
  \<open>!process.env[envVar]\<close>: true when the variable is unset (\<open>undefined\<close>) and when it is
  the empty string, the one falsy string.
\<close>

definition env_falsy :: "process_env \<Rightarrow> js_string \<Rightarrow> bool" where
  "env_falsy env envVar = (case env envVar of None \<Rightarrow> True | Some v \<Rightarrow> v = [])"

definition missingEnvVars :: "process_env \<Rightarrow> js_string list" where
  "missingEnvVars env = filter (env_falsy env) requiredEnvVars"

text \<open>
  The outcome of the check: either the process goes on to build the app, or it has written
  the lines given to \<open>console.error\<close> and called \<open>process.exit\<close> with the code.
\<close>

datatype startup = Proceed | Exit "js_string list" int

definition validate_env :: "process_env \<Rightarrow> startup" where
  "validate_env env =
     (if length (missingEnvVars env) > 0
      then Exit (ascii ''Error: Missing required environment variables:''
                 # map (\<lambda>envVar. ascii ''- '' @ envVar) (missingEnvVars env)) 1
      else Proceed)"

section \<open>The fixed tables (app.js, lines 45-63)\<close>

definition INDUSTRIES :: "(js_string \<times> js_string) list" where
  "INDUSTRIES =
     [(ascii ''manufacturing'', [0x88FD, 0x9020, 0x696D]),
      (ascii ''construction'', [0x5EFA, 0x8A2D, 0x696D]),
      (ascii ''retail'', [0x5C0F, 0x58F2, 0x696D]),
      (ascii ''agriculture'', [0x8FB2, 0x696D]),
      (ascii ''service'', [0x30B5, 0x30FC, 0x30D3, 0x30B9, 0x696D]),
      (ascii ''professional'', [0x58EB, 0x696D]),
      (ascii ''medical'', [0x533B, 0x7642]),
      (ascii ''restaurant'', [0x98F2, 0x98DF, 0x696D])]"

definition CATEGORIES :: "(js_string \<times> js_string) list" where
  "CATEGORIES =
     [(ascii ''accounting'', [0x7D4C, 0x7406]),
      (ascii ''hr'', [0x4EBA, 0x4E8B]),
      (ascii ''admin'', [0x7DCF, 0x52D9]),
      (ascii ''sales'', [0x55B6, 0x696D, 0x652F, 0x63F4])]"

text \<open>
  \<open>TABLE[key]\<close> on an object literal: an own property, else a member inherited from
  \<open>Object.prototype\<close>, else \<open>undefined\<close>.
\<close>

datatype js_prop = Undefined | Own js_string | Inherited js_string

definition object_prototype_members :: "js_string list" where
  "object_prototype_members =
     [ascii ''constructor'', ascii ''__defineGetter__'', ascii ''__defineSetter__'',
      ascii ''hasOwnProperty'', ascii ''__lookupGetter__'', ascii ''__lookupSetter__'',
      ascii ''isPrototypeOf'', ascii ''propertyIsEnumerable'', ascii ''toString'',
      ascii ''valueOf'', ascii ''__proto__'', ascii ''toLocaleString'']"

definition get_property :: "(js_string \<times> js_string) list \<Rightarrow> js_string \<Rightarrow> js_prop" where
  "get_property table key =
     (case map_of table key of
        Some v \<Rightarrow> Own v
      | None \<Rightarrow> if key \<in> set object_prototype_members then Inherited key else Undefined)"

text \<open>
  A property inside a template literal, \<open>`${TABLE[key]}`\<close>. An inherited member is a
  built-in function, printed as the Node runtime prints it, except \<open>__proto__\<close>, which is
  the prototype object itself.
\<close>

definition template_prop :: "js_prop \<Rightarrow> js_string" where
  "template_prop p =
     (case p of
        Undefined \<Rightarrow> ascii ''undefined''
      | Own v \<Rightarrow> v
      | Inherited k \<Rightarrow>
          if k = ascii ''__proto__'' then ascii ''[object Object]''
          else ascii ''function '' @ (if k = ascii ''constructor'' then ascii ''Object'' else k)
               @ ascii ''() { [native code] }'')"

section \<open>User contexts (app.js, line 66)\<close>

text \<open>
  A user context is a plain object: a finite map from field names to string values.
  \<open>userContexts\<close> is the \<open>Map\<close> from user ids to these objects.
\<close>

type_synonym user_context = "js_string \<rightharpoonup> js_string"

type_synonym user_contexts = "js_string \<rightharpoonup> user_context"

text \<open>\<open>{ ...userContexts.get(userId), industry: selectedIndustry }\<close>: spreading
  \<open>undefined\<close> adds nothing; the spread fields are kept and \<open>industry\<close> is written last.\<close>

definition spread_industry :: "user_context option \<Rightarrow> js_string \<Rightarrow> user_context" where
  "spread_industry existing selectedIndustry =
     (case existing of None \<Rightarrow> Map.empty | Some ctx \<Rightarrow> ctx)
       (ascii ''industry'' \<mapsto> selectedIndustry)"

text \<open>\<open>userContext.industry\<close> used as a condition: the value when the field is there and
  is not the empty string (the one falsy string), \<open>None\<close> otherwise.\<close>

definition truthy_industry :: "user_context \<Rightarrow> js_string option" where
  "truthy_industry userContext =
     (case userContext (ascii ''industry'') of
        None \<Rightarrow> None
      | Some v \<Rightarrow> if v = [] then None else Some v)"

section \<open>Block layouts, views and requests\<close>

datatype text_object =
    PlainText js_string "bool option"   \<comment> \<open>text, emoji (when given)\<close>
  | Mrkdwn js_string

datatype option_object = OptionObject text_object js_string   \<comment> \<open>text, value\<close>

datatype element =
    StaticSelect text_object js_string "option_object list"   \<comment> \<open>placeholder, action_id, options\<close>
  | Button text_object js_string js_string                    \<comment> \<open>text, value, action_id\<close>
  | PlainTextInput js_string bool text_object                 \<comment> \<open>action_id, multiline, placeholder\<close>

datatype block =
    Header text_object
  | Section text_object
  | Actions "element list"
  | Input js_string element text_object   \<comment> \<open>block_id, element, label\<close>

datatype view =
    HomeView "block list"
  | ModalView js_string text_object text_object text_object "block list" js_string
      \<comment> \<open>callback_id, title, submit, close, blocks, private_metadata\<close>

datatype chat_role = System | User

record completion_request =
  model :: js_string
  messages :: "(chat_role \<times> nullable) list"   \<comment> \<open>role, content\<close>
  temperature :: rat   \<comment> \<open>the decimal literal of the source, \<open>0.7\<close>\<close>

text \<open>The response object of the completion API, as far as line 84 reads it; a part that
  is not there is \<open>None\<close>.\<close>

datatype chat_message = ChatMessage nullable                    \<comment> \<open>content\<close>
datatype choice = Choice "chat_message option"                  \<comment> \<open>message\<close>
datatype chat_completion = ChatCompletion "choice list option"  \<comment> \<open>choices\<close>

datatype completion_outcome = Rejects js_error | Resolves chat_completion

section \<open>Effects and the outside world\<close>

text \<open>
  Every call a handler makes to the outside, in the order it makes them. A call is recorded
  when it is made, whether or not it then fails.
\<close>

datatype effect =
    Ack
  | ViewsPublish js_string view                        \<comment> \<open>user_id, view\<close>
  | ViewsOpen js_string view                           \<comment> \<open>trigger_id, view\<close>
  | ChatPostMessage js_string nullable "block list"    \<comment> \<open>channel, text, blocks\<close>
  | Respond "block list" js_string                     \<comment> \<open>blocks, response_type\<close>
  | ChatCompletionsCreate completion_request
  | ConsoleError js_string js_error                    \<comment> \<open>label, the caught value\<close>

text \<open>How each external call ends while one event is handled: \<open>None\<close> when it
  succeeds, the thrown value otherwise. No handler makes the same kind of call twice for
  one event, so one outcome for each kind is enough.\<close>

record world =
  ack_outcome :: "js_error option"
  views_publish_outcome :: "js_error option"
  views_open_outcome :: "js_error option"
  post_message_outcome :: "js_error option"
  respond_outcome :: "js_error option"
  create_outcome :: completion_outcome

section \<open>The home tab (app.js, lines 91-171)\<close>

definition industry_options :: "option_object list" where
  "industry_options =
     map (\<lambda>(val, txt). OptionObject (PlainText txt (Some True)) val) INDUSTRIES"

definition home_base_blocks :: "block list" where
  "home_base_blocks =
     [Header (PlainText (ascii ''Softdoing AI '' @ [0x30DC, 0x30FC, 0x30C9] @ ascii '' ''
                         @ [0xD83E, 0xDD16]) (Some True)),
      Section (Mrkdwn ([0x696D, 0x52D9, 0x52B9, 0x7387, 0x5316, 0x306E, 0x305F, 0x3081, 0x306E]
                       @ ascii ''AI''
                       @ [0x30A2, 0x30B7, 0x30B9, 0x30BF, 0x30F3, 0x30C8, 0x3078, 0x3088, 0x3046,
                          0x3053, 0x305D, 0xFF01, 0x000A, 0x696D, 0x7A2E, 0x3092, 0x9078, 0x629E,
                          0x3057, 0x3066, 0x59CB, 0x3081, 0x307E, 0x3057, 0x3087, 0x3046, 0x3002])),
      Actions
        [StaticSelect (PlainText [0x696D, 0x7A2E, 0x3092, 0x9078, 0x629E] (Some True))
           (ascii ''select_industry'') industry_options]]"

definition selected_industry_label :: "js_string \<Rightarrow> js_string" where
  "selected_industry_label industry =
     ascii ''*'' @ [0x9078, 0x629E, 0x3055, 0x308C, 0x305F, 0x696D, 0x7A2E] @ ascii '': ''
     @ template_prop (get_property INDUSTRIES industry)
     @ ascii ''*''
     @ [0x000A, 0x4EE5, 0x4E0B, 0x306E, 0x30AB, 0x30C6, 0x30B4, 0x30EA, 0x304B, 0x3089, 0x9078,
        0x629E, 0x3057, 0x3066, 0x304F, 0x3060, 0x3055, 0x3044, 0xFF1A]"

definition category_buttons :: "element list" where
  "category_buttons =
     map (\<lambda>(val, txt). Button (PlainText txt (Some True)) val (ascii ''category_'' @ val))
       CATEGORIES"

definition home_blocks :: "user_context \<Rightarrow> block list" where
  "home_blocks userContext =
     home_base_blocks @
     (case truthy_industry userContext of
        Some industry \<Rightarrow>
          [Section (Mrkdwn (selected_industry_label industry)), Actions category_buttons]
      | None \<Rightarrow> [])"

definition updateHomeTab :: "world \<Rightarrow> user_contexts \<Rightarrow> js_string \<Rightarrow> effect list" where
  "updateHomeTab w userContexts userId =
     (let userContext = (case userContexts userId of None \<Rightarrow> Map.empty | Some ctx \<Rightarrow> ctx)
      in ViewsPublish userId (HomeView (home_blocks userContext))
         # (case views_publish_outcome w of
              None \<Rightarrow> []
            | Some error \<Rightarrow> [ConsoleError (ascii ''Error updating home tab:'') error]))"

section \<open>JSON.stringify and JSON.parse\<close>

text \<open>
  The two built-ins the modal's \<open>private_metadata\<close> goes through, after the language
  standard. A number is kept as its source text: no handler computes with one.
\<close>

datatype json =
    JNull
  | JBool bool
  | JNumber js_string
  | JString js_string
  | JArray "json list"
  | JObject "(js_string \<times> json) list"

subsection \<open>Quoting a string\<close>

definition is_high_surrogate :: "16 word \<Rightarrow> bool" where
  "is_high_surrogate c = (0xD800 \<le> c \<and> c \<le> 0xDBFF)"

definition is_low_surrogate :: "16 word \<Rightarrow> bool" where
  "is_low_surrogate c = (0xDC00 \<le> c \<and> c \<le> 0xDFFF)"

definition hex_digit :: "nat \<Rightarrow> 16 word" where
  "hex_digit n = (if n < 10 then 0x30 + of_nat n else 0x61 + of_nat (n - 10))"

text \<open>The escape for one code unit: a backslash, the letter u and four lower-case
  hexadecimal digits.\<close>

definition unicode_escape :: "16 word \<Rightarrow> js_string" where
  "unicode_escape c =
     (let n = unat c
      in [0x5C, 0x75, hex_digit (n div 4096 mod 16), hex_digit (n div 256 mod 16),
          hex_digit (n div 16 mod 16), hex_digit (n mod 16)])"

text \<open>
  The body of a quoted string: the short escapes, the four-digit escape for the other control
  characters and for a surrogate that is not part of a pair, everything else as it is.
\<close>

fun quote_units :: "js_string \<Rightarrow> js_string" where
  "quote_units [] = []"
| "quote_units (c # cs) =
     (if c = 0x08 then [0x5C, 0x62] @ quote_units cs
      else if c = 0x09 then [0x5C, 0x74] @ quote_units cs
      else if c = 0x0A then [0x5C, 0x6E] @ quote_units cs
      else if c = 0x0C then [0x5C, 0x66] @ quote_units cs
      else if c = 0x0D then [0x5C, 0x72] @ quote_units cs
      else if c = 0x22 then [0x5C, 0x22] @ quote_units cs
      else if c = 0x5C then [0x5C, 0x5C] @ quote_units cs
      else if c < 0x20 then unicode_escape c @ quote_units cs
      else if is_high_surrogate c then
        (case cs of
           [] \<Rightarrow> unicode_escape c
         | d # ds \<Rightarrow>
             if is_low_surrogate d then c # d # quote_units ds
             else unicode_escape c @ quote_units cs)
      else if is_low_surrogate c then unicode_escape c @ quote_units cs
      else c # quote_units cs)"

definition QuoteJSONString :: "js_string \<Rightarrow> js_string" where
  "QuoteJSONString s = [0x22] @ quote_units s @ [0x22]"

fun join_with :: "js_string \<Rightarrow> js_string list \<Rightarrow> js_string" where
  "join_with sep [] = []"
| "join_with sep [x] = x"
| "join_with sep (x # y # ys) = x @ sep @ join_with sep (y # ys)"

text \<open>\<open>JSON.stringify\<close> of an object whose properties, in their order, all hold strings.\<close>

definition JSON_stringify :: "(js_string \<times> js_string) list \<Rightarrow> js_string" where
  "JSON_stringify props =
     ascii ''{''
     @ join_with (ascii '','')
         (map (\<lambda>(k, v). QuoteJSONString k @ ascii '':'' @ QuoteJSONString v) props)
     @ ascii ''}''"

subsection \<open>Reading tokens\<close>

datatype token =
    TLBrace | TRBrace | TLBracket | TRBracket | TColon | TComma
  | TString js_string | TNumber js_string | TTrue | TFalse | TNull

datatype num_state =
    NMinus | NZero | NInt | NDot | NFrac | NExp | NExpSign | NExpDigits

datatype lex_state =
    LIdle
  | LString js_string              \<comment> \<open>inside a string: its units so far\<close>
  | LEscape js_string              \<comment> \<open>after a backslash\<close>
  | LUnicode js_string nat nat     \<comment> \<open>inside a four-digit escape: digits read, their value\<close>
  | LNumber num_state js_string    \<comment> \<open>inside a number: its text so far\<close>
  | LLiteral token js_string       \<comment> \<open>inside \<open>true\<close>, \<open>false\<close>, \<open>null\<close>: units still to come\<close>

definition is_digit :: "16 word \<Rightarrow> bool" where
  "is_digit c = (0x30 \<le> c \<and> c \<le> 0x39)"

definition hex_value :: "16 word \<Rightarrow> nat option" where
  "hex_value c =
     (if 0x30 \<le> c \<and> c \<le> 0x39 then Some (unat c - 0x30)
      else if 0x61 \<le> c \<and> c \<le> 0x66 then Some (unat c - 0x61 + 10)
      else if 0x41 \<le> c \<and> c \<le> 0x46 then Some (unat c - 0x41 + 10)
      else None)"

definition lex_idle :: "token list \<Rightarrow> 16 word \<Rightarrow> (lex_state \<times> token list) option" where
  "lex_idle ts c =
     (if c = 0x20 \<or> c = 0x09 \<or> c = 0x0A \<or> c = 0x0D then Some (LIdle, ts)
      else if c = 0x7B then Some (LIdle, ts @ [TLBrace])
      else if c = 0x7D then Some (LIdle, ts @ [TRBrace])
      else if c = 0x5B then Some (LIdle, ts @ [TLBracket])
      else if c = 0x5D then Some (LIdle, ts @ [TRBracket])
      else if c = 0x3A then Some (LIdle, ts @ [TColon])
      else if c = 0x2C then Some (LIdle, ts @ [TComma])
      else if c = 0x22 then Some (LString [], ts)
      else if c = 0x2D then Some (LNumber NMinus [c], ts)
      else if c = 0x30 then Some (LNumber NZero [c], ts)
      else if is_digit c then Some (LNumber NInt [c], ts)
      else if c = 0x74 then Some (LLiteral TTrue (ascii ''rue''), ts)
      else if c = 0x66 then Some (LLiteral TFalse (ascii ''alse''), ts)
      else if c = 0x6E then Some (LLiteral TNull (ascii ''ull''), ts)
      else None)"

text \<open>One unit inside a number: the number goes on, or it is malformed, or it has ended and
  the unit is read afresh.\<close>

definition lex_number ::
  "num_state \<Rightarrow> js_string \<Rightarrow> token list \<Rightarrow> 16 word \<Rightarrow> (lex_state \<times> token list) option" where
  "lex_number ns lx ts c =
     (let go = (\<lambda>ns'. Some (LNumber ns' (lx @ [c]), ts));
          done = lex_idle (ts @ [TNumber lx]) c;
          is_e = (c = 0x65 \<or> c = 0x45)
      in case ns of
           NMinus \<Rightarrow> if c = 0x30 then go NZero else if is_digit c then go NInt else None
         | NZero \<Rightarrow> if c = 0x2E then go NDot else if is_e then go NExp else done
         | NInt \<Rightarrow> if is_digit c then go NInt else if c = 0x2E then go NDot
                   else if is_e then go NExp else done
         | NDot \<Rightarrow> if is_digit c then go NFrac else None
         | NFrac \<Rightarrow> if is_digit c then go NFrac else if is_e then go NExp else done
         | NExp \<Rightarrow> if c = 0x2B \<or> c = 0x2D then go NExpSign
                   else if is_digit c then go NExpDigits else None
         | NExpSign \<Rightarrow> if is_digit c then go NExpDigits else None
         | NExpDigits \<Rightarrow> if is_digit c then go NExpDigits else done)"

definition lex_step :: "lex_state \<Rightarrow> token list \<Rightarrow> 16 word \<Rightarrow> (lex_state \<times> token list) option" where
  "lex_step st ts c =
     (case st of
        LIdle \<Rightarrow> lex_idle ts c
      | LString acc \<Rightarrow>
          if c = 0x22 then Some (LIdle, ts @ [TString acc])
          else if c = 0x5C then Some (LEscape acc, ts)
          else if c < 0x20 then None
          else Some (LString (acc @ [c]), ts)
      | LEscape acc \<Rightarrow>
          if c = 0x22 \<or> c = 0x5C \<or> c = 0x2F then Some (LString (acc @ [c]), ts)
          else if c = 0x62 then Some (LString (acc @ [0x08]), ts)
          else if c = 0x66 then Some (LString (acc @ [0x0C]), ts)
          else if c = 0x6E then Some (LString (acc @ [0x0A]), ts)
          else if c = 0x72 then Some (LString (acc @ [0x0D]), ts)
          else if c = 0x74 then Some (LString (acc @ [0x09]), ts)
          else if c = 0x75 then Some (LUnicode acc 0 0, ts)
          else None
      | LUnicode acc k v \<Rightarrow>
          (case hex_value c of
             None \<Rightarrow> None
           | Some d \<Rightarrow>
               if k = 3 then Some (LString (acc @ [of_nat (v * 16 + d)]), ts)
               else Some (LUnicode acc (k + 1) (v * 16 + d), ts))
      | LNumber ns lx \<Rightarrow> lex_number ns lx ts c
      | LLiteral tok rest \<Rightarrow>
          (case rest of
             [] \<Rightarrow> None
           | r # rs \<Rightarrow>
               if c \<noteq> r then None
               else if rs = [] then Some (LIdle, ts @ [tok])
               else Some (LLiteral tok rs, ts)))"

text \<open>At the end of the text: nothing may be open except a number that is complete.\<close>

definition lex_end :: "lex_state \<Rightarrow> token list \<Rightarrow> token list option" where
  "lex_end st ts =
     (case st of
        LIdle \<Rightarrow> Some ts
      | LNumber ns lx \<Rightarrow>
          if ns = NZero \<or> ns = NInt \<or> ns = NFrac \<or> ns = NExpDigits
          then Some (ts @ [TNumber lx]) else None
      | _ \<Rightarrow> None)"

fun lex :: "lex_state \<Rightarrow> token list \<Rightarrow> js_string \<Rightarrow> token list option" where
  "lex st ts [] = lex_end st ts"
| "lex st ts (c # cs) =
     (case lex_step st ts c of
        None \<Rightarrow> None
      | Some (st', ts') \<Rightarrow> lex st' ts' cs)"

subsection \<open>Building the value\<close>

text \<open>The containers that are open: an array with its elements so far, an object with its
  members so far and the key whose value is being read.\<close>

datatype frame =
    ArrayFrame "json list"
  | ObjectFrame "(js_string \<times> json) list" js_string

datatype parse_state =
    ExpectValue "frame list"
  | ExpectValueOrClose "frame list"
  | ExpectKeyOrClose "frame list"
  | ExpectKey "(js_string \<times> json) list" "frame list"
  | ExpectColon "(js_string \<times> json) list" js_string "frame list"
  | AfterValue json "frame list"

definition start_value :: "frame list \<Rightarrow> token \<Rightarrow> parse_state option" where
  "start_value stack t =
     (case t of
        TLBracket \<Rightarrow> Some (ExpectValueOrClose stack)
      | TLBrace \<Rightarrow> Some (ExpectKeyOrClose stack)
      | TString s \<Rightarrow> Some (AfterValue (JString s) stack)
      | TNumber lx \<Rightarrow> Some (AfterValue (JNumber lx) stack)
      | TTrue \<Rightarrow> Some (AfterValue (JBool True) stack)
      | TFalse \<Rightarrow> Some (AfterValue (JBool False) stack)
      | TNull \<Rightarrow> Some (AfterValue JNull stack)
      | _ \<Rightarrow> None)"

fun parse_step :: "parse_state \<Rightarrow> token \<Rightarrow> parse_state option" where
  "parse_step (ExpectValue stack) t = start_value stack t"
| "parse_step (ExpectValueOrClose stack) t =
     (if t = TRBracket then Some (AfterValue (JArray []) stack)
      else start_value (ArrayFrame [] # stack) t)"
| "parse_step (ExpectKeyOrClose stack) t =
     (case t of
        TRBrace \<Rightarrow> Some (AfterValue (JObject []) stack)
      | TString k \<Rightarrow> Some (ExpectColon [] k stack)
      | _ \<Rightarrow> None)"
| "parse_step (ExpectKey ms stack) t =
     (case t of TString k \<Rightarrow> Some (ExpectColon ms k stack) | _ \<Rightarrow> None)"
| "parse_step (ExpectColon ms k stack) t =
     (if t = TColon then Some (ExpectValue (ObjectFrame ms k # stack)) else None)"
| "parse_step (AfterValue v []) t = None"
| "parse_step (AfterValue v (ArrayFrame xs # stack)) t =
     (case t of
        TComma \<Rightarrow> Some (ExpectValue (ArrayFrame (xs @ [v]) # stack))
      | TRBracket \<Rightarrow> Some (AfterValue (JArray (xs @ [v])) stack)
      | _ \<Rightarrow> None)"
| "parse_step (AfterValue v (ObjectFrame ms k # stack)) t =
     (case t of
        TComma \<Rightarrow> Some (ExpectKey (ms @ [(k, v)]) stack)
      | TRBrace \<Rightarrow> Some (AfterValue (JObject (ms @ [(k, v)])) stack)
      | _ \<Rightarrow> None)"

fun parse_tokens :: "parse_state \<Rightarrow> token list \<Rightarrow> json option" where
  "parse_tokens st [] = (case st of AfterValue v [] \<Rightarrow> Some v | _ \<Rightarrow> None)"
| "parse_tokens st (t # ts) =
     (case parse_step st t of None \<Rightarrow> None | Some st' \<Rightarrow> parse_tokens st' ts)"

definition JSON_parse :: "js_string \<Rightarrow> js_error + json" where
  "JSON_parse text =
     (case lex LIdle [] text of
        None \<Rightarrow> Inl SyntaxError
      | Some ts \<Rightarrow>
          (case parse_tokens (ExpectValue []) ts of
             None \<Rightarrow> Inl SyntaxError
           | Some v \<Rightarrow> Inr v))"

section \<open>Reading the parsed metadata\<close>

text \<open>
  \<open>const { industry, category } = value\<close>: destructuring \<open>null\<close> throws; an object gives
  its own properties of these names (the last one when a name is repeated in the text);
  every other value has neither, and a name that is not there gives \<open>undefined\<close> (\<open>None\<close>).
\<close>

definition destructure :: "json \<Rightarrow> js_error + (json option \<times> json option)" where
  "destructure v =
     (case v of
        JNull \<Rightarrow> Inl TypeError
      | JObject ms \<Rightarrow>
          Inr (map_of (rev ms) (ascii ''industry''), map_of (rev ms) (ascii ''category''))
      | _ \<Rightarrow> Inr (None, None))"

text \<open>
  A parsed value used as a property key is turned into a string: an array joins its
  elements with commas (\<open>null\<close> counting as empty), an object prints as
  \<open>[object Object]\<close> unless it has a property \<open>toString\<close> of its own, which is not
  callable and makes the conversion throw. The text of a number is not computed: the result
  is then \<open>None\<close>, a string that begins with the number's text or contains a comma and so
  is the name of no property of the tables or of \<open>Object.prototype\<close>.
\<close>

fun to_property_key :: "json \<Rightarrow> js_error + js_string option"
  and join_elements :: "json list \<Rightarrow> js_error + js_string option" where
  "to_property_key JNull = Inr (Some (ascii ''null''))"
| "to_property_key (JBool b) = Inr (Some (if b then ascii ''true'' else ascii ''false''))"
| "to_property_key (JNumber lx) = Inr None"
| "to_property_key (JString s) = Inr (Some s)"
| "to_property_key (JArray xs) = join_elements xs"
| "to_property_key (JObject ms) =
     (if ascii ''toString'' \<in> fst ` set ms then Inl TypeError
      else Inr (Some (ascii ''[object Object]'')))"
| "join_elements [] = Inr (Some [])"
| "join_elements (x # xs) =
     (case (if x = JNull then Inr (Some []) else to_property_key x) of
        Inl e \<Rightarrow> Inl e
      | Inr first \<Rightarrow>
          if xs = [] then Inr first
          else (case join_elements xs of
                  Inl e \<Rightarrow> Inl e
                | Inr others \<Rightarrow>
                    Inr (case (first, others) of
                           (Some a, Some b) \<Rightarrow> Some (a @ ascii '','' @ b)
                         | _ \<Rightarrow> None)))"

text \<open>\<open>TABLE[key]\<close> for a destructured key.\<close>

definition table_lookup ::
  "(js_string \<times> js_string) list \<Rightarrow> json option \<Rightarrow> js_error + js_prop" where
  "table_lookup table key =
     (case key of
        None \<Rightarrow> Inr (get_property table (ascii ''undefined''))
      | Some v \<Rightarrow>
          (case to_property_key v of
             Inl e \<Rightarrow> Inl e
           | Inr None \<Rightarrow> Inr Undefined
           | Inr (Some k) \<Rightarrow> Inr (get_property table k)))"

section \<open>The completion client (app.js, lines 68-89)\<close>

text \<open>\<open>x || ''\<close> inside the template: nothing for \<open>undefined\<close> (for which the default
  \<open>null\<close> of the parameter steps in) and for the empty string.\<close>

definition or_empty :: "js_prop \<Rightarrow> js_string" where
  "or_empty p = (case p of Undefined \<Rightarrow> [] | _ \<Rightarrow> template_prop p)"

definition system_content :: "js_prop \<Rightarrow> js_prop \<Rightarrow> js_string" where
  "system_content industry category =
     [0x3042, 0x306A, 0x305F, 0x306F] @ or_empty industry
     @ [0x5411, 0x3051, 0x306E] @ or_empty category
     @ [0x5C02, 0x9580, 0x30A2, 0x30B7, 0x30B9, 0x30BF, 0x30F3, 0x30C8, 0x3067, 0x3059, 0x3002,
        0x000A]
     @ ascii ''                   ''
     @ [0x5C02, 0x9580, 0x7684, 0x304B, 0x3064, 0x5B9F, 0x7528, 0x7684, 0x306A, 0x30A2, 0x30C9,
        0x30D0, 0x30A4, 0x30B9, 0x3092, 0x63D0, 0x4F9B, 0x3057, 0x3066, 0x304F, 0x3060, 0x3055,
        0x3044, 0x3002]"

definition completion_request_for ::
  "nullable \<Rightarrow> js_prop \<Rightarrow> js_prop \<Rightarrow> completion_request" where
  "completion_request_for prompt industry category =
     \<lparr>model = ascii ''gpt-4'',
      messages = [(System, Str (system_content industry category)), (User, prompt)],
      temperature = 7 / 10\<rparr>"

definition fallback_message :: js_string where
  "fallback_message =
     [0x7533, 0x3057, 0x8A33, 0x3042, 0x308A, 0x307E, 0x305B, 0x3093, 0x3002, 0x73FE, 0x5728]
     @ ascii ''AI''
     @ [0x306E, 0x5FDC, 0x7B54, 0x306B, 0x554F, 0x984C, 0x304C, 0x767A, 0x751F, 0x3057, 0x3066,
        0x3044, 0x307E, 0x3059, 0x3002]"

text \<open>\<open>response.choices[0].message.content\<close>: when \<open>choices\<close>, its first element or
  that element's \<open>message\<close> is not there, the read throws; the \<open>content\<close> is returned
  as it is, also when it is \<open>null\<close> or not there.\<close>

definition first_content :: "chat_completion \<Rightarrow> js_error + nullable" where
  "first_content response =
     (case response of
        ChatCompletion None \<Rightarrow> Inl TypeError
      | ChatCompletion (Some []) \<Rightarrow> Inl TypeError
      | ChatCompletion (Some (Choice None # _)) \<Rightarrow> Inl TypeError
      | ChatCompletion (Some (Choice (Some (ChatMessage content)) # _)) \<Rightarrow> Inr content)"

text \<open>The returned value and the calls made.\<close>

definition generateAIResponse ::
  "world \<Rightarrow> nullable \<Rightarrow> js_prop \<Rightarrow> js_prop \<Rightarrow> nullable \<times> effect list" where
  "generateAIResponse w prompt industry category =
     (let request = ChatCompletionsCreate (completion_request_for prompt industry category);
          failed = (\<lambda>error. (Str fallback_message,
                               [request, ConsoleError (ascii ''OpenAI API Error:'') error]))
      in case create_outcome w of
           Rejects error \<Rightarrow> failed error
         | Resolves response \<Rightarrow>
             (case first_content response of
                Inl error \<Rightarrow> failed error
              | Inr content \<Rightarrow> (content, [request])))"

section \<open>The handlers (app.js, lines 173-335)\<close>

text \<open>The payload of a block action, as far as the handlers read it.\<close>

record action_payload =
  action_id :: js_string
  selected_option :: "js_string option"   \<comment> \<open>the value of the selected option, when there is one\<close>

record block_action =
  ba_user_id :: js_string
  ba_trigger_id :: js_string
  ba_actions :: "action_payload list"

text \<open>The payload of a view submission: \<open>body.user.id\<close>, and of the view its
  \<open>callback_id\<close>, \<open>private_metadata\<close> and \<open>state.values\<close> (block id, then action id, then
  the \<open>value\<close> of that input).\<close>

record view_submission =
  vs_user_id :: js_string
  vs_callback_id :: js_string
  vs_private_metadata :: js_string
  vs_state_values :: "js_string \<rightharpoonup> (js_string \<rightharpoonup> nullable)"

type_synonym 'a handler = "world \<Rightarrow> 'a \<Rightarrow> user_contexts \<Rightarrow> user_contexts \<times> effect list"

text \<open>\<open>body.actions[0].selected_option.value\<close>\<close>

definition selected_value :: "block_action \<Rightarrow> js_error + js_string" where
  "selected_value body =
     (case ba_actions body of
        [] \<Rightarrow> Inl TypeError
      | a # _ \<Rightarrow> (case selected_option a of None \<Rightarrow> Inl TypeError | Some v \<Rightarrow> Inr v))"

definition select_industry :: "block_action handler" where
  "select_industry w body userContexts =
     (let caught = (\<lambda>error.
            (userContexts, [Ack, ConsoleError (ascii ''Error handling industry selection:'') error]))
      in case ack_outcome w of
           Some error \<Rightarrow> caught error
         | None \<Rightarrow>
             (case selected_value body of
                Inl error \<Rightarrow> caught error
              | Inr selectedIndustry \<Rightarrow>
                  (let userId = ba_user_id body;
                       userContexts' =
                         userContexts(userId \<mapsto>
                           spread_industry (userContexts userId) selectedIndustry)
                   in (userContexts', Ack # updateHomeTab w userContexts' userId))))"

definition query_modal :: "js_string \<Rightarrow> js_string \<Rightarrow> view" where
  "query_modal industry category =
     ModalView (ascii ''modal_submit'')
       (PlainText (template_prop (get_property CATEGORIES category)
                   @ [0x30B5, 0x30DD, 0x30FC, 0x30C8]) (Some True))
       (PlainText [0x9001, 0x4FE1] (Some True))
       (PlainText [0x30AD, 0x30E3, 0x30F3, 0x30BB, 0x30EB] (Some True))
       [Input (ascii ''query_block'')
          (PlainTextInput (ascii ''query_input'') True
             (PlainText [0x3054, 0x8CEA, 0x554F, 0x3084, 0x4F9D, 0x983C, 0x5185, 0x5BB9, 0x3092,
                         0x5165, 0x529B, 0x3057, 0x3066, 0x304F, 0x3060, 0x3055, 0x3044] None))
          (PlainText [0x8CEA, 0x554F, 0x5185, 0x5BB9] (Some True))]
       (JSON_stringify [(ascii ''industry'', industry), (ascii ''category'', category)])"

definition category_action :: "js_string \<Rightarrow> block_action handler" where
  "category_action category w body userContexts =
     (case ack_outcome w of
        Some error \<Rightarrow> (userContexts, [Ack, ConsoleError (ascii ''Error opening modal:'') error])
      | None \<Rightarrow>
          (case userContexts (ba_user_id body) of
             None \<Rightarrow> (userContexts, [Ack])
           | Some userContext \<Rightarrow>
               (case truthy_industry userContext of
                  None \<Rightarrow> (userContexts, [Ack])
                | Some industry \<Rightarrow>
                    (userContexts,
                     [Ack, ViewsOpen (ba_trigger_id body) (query_modal industry category)]
                     @ (case views_open_outcome w of
                          None \<Rightarrow> []
                        | Some error \<Rightarrow>
                            [ConsoleError (ascii ''Error opening modal:'') error])))))"

text \<open>\<open>view.state.values.query_block.query_input.value\<close>\<close>

definition query_value :: "view_submission \<Rightarrow> js_error + nullable" where
  "query_value view =
     (case vs_state_values view (ascii ''query_block'') of
        None \<Rightarrow> Inl TypeError
      | Some query_block \<Rightarrow>
          (case query_block (ascii ''query_input'') of
             None \<Rightarrow> Inl TypeError
           | Some v \<Rightarrow> Inr v))"

text \<open>\<open>`${response}`\<close>\<close>

definition template_response :: "nullable \<Rightarrow> js_string" where
  "template_response response =
     (case response of Absent \<Rightarrow> ascii ''undefined'' | Null \<Rightarrow> ascii ''null'' | Str r \<Rightarrow> r)"

definition answer_text :: "js_prop \<Rightarrow> js_prop \<Rightarrow> nullable \<Rightarrow> js_string" where
  "answer_text industry category response =
     ascii ''*'' @ template_prop industry @ ascii '' - '' @ template_prop category
     @ [0x306B, 0x95A2, 0x3059, 0x308B, 0x56DE, 0x7B54] @ ascii ''*'' @ [0x000A, 0x000A]
     @ template_response response"

definition modal_submit :: "view_submission handler" where
  "modal_submit w view userContexts =
     (let caught = (\<lambda>error.
            (userContexts, [Ack, ConsoleError (ascii ''Error handling modal submission:'') error]))
      in case ack_outcome w of
           Some error \<Rightarrow> caught error
         | None \<Rightarrow>
        (case JSON_parse (vs_private_metadata view) of
           Inl error \<Rightarrow> caught error
         | Inr metadata \<Rightarrow>
        (case destructure metadata of
           Inl error \<Rightarrow> caught error
         | Inr (industry, category) \<Rightarrow>
        (case query_value view of
           Inl error \<Rightarrow> caught error
         | Inr query \<Rightarrow>
        (case table_lookup INDUSTRIES industry of
           Inl error \<Rightarrow> caught error
         | Inr industry_label \<Rightarrow>
        (case table_lookup CATEGORIES category of
           Inl error \<Rightarrow> caught error
         | Inr category_label \<Rightarrow>
             (case generateAIResponse w query industry_label category_label of
                (response, calls) \<Rightarrow>
                  (userContexts,
                   [Ack] @ calls
                   @ [ChatPostMessage (vs_user_id view) response
                        [Section (Mrkdwn (answer_text industry_label category_label response))]]
                   @ (case post_message_outcome w of
                        None \<Rightarrow> []
                      | Some error \<Rightarrow>
                          [ConsoleError (ascii ''Error handling modal submission:'')
                             error])))))))))"

definition command_blocks :: "block list" where
  "command_blocks =
     [Section (Mrkdwn (ascii ''AI''
        @ [0x30DC, 0x30FC, 0x30C9, 0x3092, 0x8D77, 0x52D5, 0x3057, 0x307E, 0x3057, 0x305F, 0x3002,
           0x4EE5, 0x4E0B, 0x304B, 0x3089, 0x696D, 0x7A2E, 0x3092, 0x9078, 0x629E, 0x3057, 0x3066,
           0x304F, 0x3060, 0x3055, 0x3044, 0xFF1A])),
      Actions
        [StaticSelect (PlainText [0x696D, 0x7A2E, 0x3092, 0x9078, 0x629E] (Some True))
           (ascii ''command_select_industry'') industry_options]]"

definition command_ai_board :: "unit handler" where
  "command_ai_board w command userContexts =
     (case ack_outcome w of
        Some error \<Rightarrow>
          (userContexts, [Ack, ConsoleError (ascii ''Error handling slash command:'') error])
      | None \<Rightarrow>
          (userContexts,
           [Ack, Respond command_blocks (ascii ''ephemeral'')]
           @ (case respond_outcome w of
                None \<Rightarrow> []
              | Some error \<Rightarrow> [ConsoleError (ascii ''Error handling slash command:'') error])))"

definition app_home_opened :: "js_string handler" where
  "app_home_opened w user userContexts = (userContexts, updateHomeTab w userContexts user)"

section \<open>The event router\<close>

text \<open>
  What \<open>app.action\<close>, \<open>app.view\<close>, \<open>app.command\<close> and \<open>app.event\<close> have registered when
  the file has run, each listener under the identifier it was registered with. An incoming
  event runs the listeners whose identifier is its own, and no other code of the program.
\<close>

datatype event =
    BlockAction block_action
  | ViewSubmission view_submission
  | SlashCommand js_string
  | PlatformEvent js_string js_string   \<comment> \<open>event type, user\<close>

definition action_listeners :: "(js_string \<times> block_action handler) list" where
  "action_listeners =
     (ascii ''select_industry'', select_industry)
     # map (\<lambda>category. (ascii ''category_'' @ category, category_action category))
         (map fst CATEGORIES)"

definition view_listeners :: "(js_string \<times> view_submission handler) list" where
  "view_listeners = [(ascii ''modal_submit'', modal_submit)]"

definition command_listeners :: "(js_string \<times> unit handler) list" where
  "command_listeners = [(ascii ''/ai-board'', command_ai_board)]"

definition event_listeners :: "(js_string \<times> js_string handler) list" where
  "event_listeners = [(ascii ''app_home_opened'', app_home_opened)]"

definition matching :: "js_string \<Rightarrow> (js_string \<times> 'a handler) list \<Rightarrow> 'a handler list" where
  "matching ident listeners = map snd (filter (\<lambda>(registered, h). registered = ident) listeners)"

fun run_listeners :: "'a handler list \<Rightarrow> 'a handler" where
  "run_listeners [] w x userContexts = (userContexts, [])"
| "run_listeners (h # hs) w x userContexts =
     (case h w x userContexts of
        (userContexts', effects) \<Rightarrow>
          (case run_listeners hs w x userContexts' of
             (userContexts'', effects') \<Rightarrow> (userContexts'', effects @ effects')))"

definition dispatch :: "world \<Rightarrow> event \<Rightarrow> user_contexts \<Rightarrow> user_contexts \<times> effect list" where
  "dispatch w ev userContexts =
     (case ev of
        BlockAction body \<Rightarrow>
          (case ba_actions body of
             [] \<Rightarrow> (userContexts, [])
           | a # _ \<Rightarrow>
               run_listeners (matching (action_id a) action_listeners) w body userContexts)
      | ViewSubmission view \<Rightarrow>
          run_listeners (matching (vs_callback_id view) view_listeners) w view userContexts
      | SlashCommand name \<Rightarrow>
          run_listeners (matching name command_listeners) w () userContexts
      | PlatformEvent type user \<Rightarrow>
          run_listeners (matching type event_listeners) w user userContexts)"

section \<open>Sample inputs\<close>

text \<open>Concrete inputs at which the statements below are evaluated: a world in which every
  external call succeeds, one in which the completion call is rejected, a click of user
  \<open>U1\<close>, and a submission of the query modal by the same user.\<close>

definition all_succeed :: world where
  "all_succeed =
     \<lparr>ack_outcome = None, views_publish_outcome = None, views_open_outcome = None,
      post_message_outcome = None, respond_outcome = None,
      create_outcome =
        Resolves (ChatCompletion (Some [Choice (Some (ChatMessage (Str (ascii ''Answer''))))]))\<rparr>"

definition completion_down :: world where
  "completion_down = all_succeed\<lparr>create_outcome := Rejects (Failure (ascii ''quota''))\<rparr>"

definition click :: "js_string \<Rightarrow> js_string option \<Rightarrow> block_action" where
  "click ident selected =
     \<lparr>ba_user_id = ascii ''U1'', ba_trigger_id = ascii ''T1'',
      ba_actions = [\<lparr>action_id = ident, selected_option = selected\<rparr>]\<rparr>"

definition submission :: "js_string \<Rightarrow> js_string \<Rightarrow> view_submission" where
  "submission metadata query =
     \<lparr>vs_user_id = ascii ''U1'', vs_callback_id = ascii ''modal_submit'',
      vs_private_metadata = metadata,
      vs_state_values =
        [ascii ''query_block'' \<mapsto> [ascii ''query_input'' \<mapsto> Str query]]\<rparr>"

section \<open>Reading layouts\<close>

text \<open>What the statements below say about a layout: the interactive elements of a block,
  their action ids, the values a selection control offers, and the metadata a view carries.\<close>

definition block_elements :: "block \<Rightarrow> element list" where
  "block_elements b = (case b of Actions es \<Rightarrow> es | Input _ e _ \<Rightarrow> [e] | _ \<Rightarrow> [])"

definition element_action_id :: "element \<Rightarrow> js_string" where
  "element_action_id e =
     (case e of StaticSelect _ a _ \<Rightarrow> a | Button _ _ a \<Rightarrow> a | PlainTextInput a _ _ \<Rightarrow> a)"

definition is_button :: "element \<Rightarrow> bool" where
  "is_button e = (case e of Button _ _ _ \<Rightarrow> True | _ \<Rightarrow> False)"

definition option_value :: "option_object \<Rightarrow> js_string" where
  "option_value opt = (case opt of OptionObject _ v \<Rightarrow> v)"

definition view_private_metadata :: "view \<Rightarrow> js_string option" where
  "view_private_metadata v =
     (case v of ModalView _ _ _ _ _ m \<Rightarrow> Some m | HomeView _ \<Rightarrow> None)"

section \<open>Startup check\<close>

text \<open>
  Claim C8. Whenever at least one of the four required variables is absent (unset, or set
  to the empty string, which the check treats alike), the check does not proceed: it exits
  with code 1 after a header line and one line \<open>- NAME\<close> for each absent variable, in the
  declared order, and for no other.
\<close>

theorem validate_env_missing:
  assumes "\<exists>v \<in> set requiredEnvVars. env_falsy env v"
  shows "validate_env env \<noteq> Proceed
       \<and> validate_env env
           = Exit (ascii ''Error: Missing required environment variables:''
                   # map (\<lambda>v. ascii ''- '' @ v) (missingEnvVars env)) 1
       \<and> missingEnvVars env \<noteq> []
       \<and> distinct (missingEnvVars env)
       \<and> set (missingEnvVars env) = {v \<in> set requiredEnvVars. env_falsy env v}"
proof -
  from assms have "missingEnvVars env \<noteq> []"
    by (auto simp: missingEnvVars_def filter_empty_conv)
  moreover have "distinct requiredEnvVars"
    by (simp add: requiredEnvVars_def ascii_def)
  then have "distinct (missingEnvVars env)"
    by (simp add: missingEnvVars_def)
  moreover have "set (missingEnvVars env) = {v \<in> set requiredEnvVars. env_falsy env v}"
    by (simp add: missingEnvVars_def)
  ultimately show ?thesis
    by (simp add: validate_env_def)
qed

theorem validate_env_missing_witness:
  "(\<exists>v \<in> set requiredEnvVars. env_falsy [ascii ''SLACK_BOT_TOKEN'' \<mapsto> ascii ''xoxb-1''] v)
   \<and> validate_env [ascii ''SLACK_BOT_TOKEN'' \<mapsto> ascii ''xoxb-1'']
       = Exit [ascii ''Error: Missing required environment variables:'',
               ascii ''- SLACK_SIGNING_SECRET'', ascii ''- SLACK_APP_TOKEN'',
               ascii ''- OPENAI_API_KEY''] 1"
proof -
  let ?env = "[ascii ''SLACK_BOT_TOKEN'' \<mapsto> ascii ''xoxb-1'']"
  have h: "\<exists>v \<in> set requiredEnvVars. env_falsy ?env v"
    by (simp add: requiredEnvVars_def env_falsy_def ascii_def)
  have m: "missingEnvVars ?env
      = [ascii ''SLACK_SIGNING_SECRET'', ascii ''SLACK_APP_TOKEN'', ascii ''OPENAI_API_KEY'']"
    by (simp add: missingEnvVars_def requiredEnvVars_def env_falsy_def ascii_def)
  from validate_env_missing [OF h]
  have "validate_env ?env
      = Exit (ascii ''Error: Missing required environment variables:''
              # map (\<lambda>v. ascii ''- '' @ v) (missingEnvVars ?env)) 1"
    by blast
  then have "validate_env ?env
      = Exit [ascii ''Error: Missing required environment variables:'',
              ascii ''- SLACK_SIGNING_SECRET'', ascii ''- SLACK_APP_TOKEN'',
              ascii ''- OPENAI_API_KEY''] 1"
    unfolding m by (simp add: ascii_def)
  with h show ?thesis by blast
qed

section \<open>Parsing what was serialized\<close>

lemma hex_value_digits: "\<forall>n \<in> set [0..<16]. hex_value (hex_digit n) = Some n"
  by (simp add: upt_rec hex_value_def hex_digit_def)

lemma hex_value_hex_digit: "n < 16 \<Longrightarrow> hex_value (hex_digit n) = Some n"
  using hex_value_digits by simp

lemma lex_unicode_more:
  "hex_value c = Some d \<Longrightarrow> k \<noteq> 3 \<Longrightarrow>
   lex (LUnicode acc k v) ts (c # cs) = lex (LUnicode acc (Suc k) (v * 16 + d)) ts cs"
  by (simp add: lex_step_def)

lemma lex_unicode_last:
  "hex_value c = Some d \<Longrightarrow>
   lex (LUnicode acc 3 v) ts (c # cs) = lex (LString (acc @ [of_nat (v * 16 + d)])) ts cs"
  by (simp add: lex_step_def)

lemma lex_hex4:
  assumes "a < 16" "b < 16" "c < 16" "d < 16"
  shows "lex (LUnicode acc 0 0) ts (hex_digit a # hex_digit b # hex_digit c # hex_digit d # rest)
     = lex (LString (acc @ [of_nat (((a * 16 + b) * 16 + c) * 16 + d)])) ts rest"
proof -
  have "lex (LUnicode acc 0 0) ts (hex_digit a # hex_digit b # hex_digit c # hex_digit d # rest)
     = lex (LUnicode acc 1 a) ts (hex_digit b # hex_digit c # hex_digit d # rest)"
    using lex_unicode_more [OF hex_value_hex_digit [OF assms(1)], of 0 acc 0] by simp
  also have "\<dots> = lex (LUnicode acc 2 (a * 16 + b)) ts (hex_digit c # hex_digit d # rest)"
    using lex_unicode_more [OF hex_value_hex_digit [OF assms(2)], of 1 acc a]
    by (simp add: numeral_2_eq_2)
  also have "\<dots> = lex (LUnicode acc 3 ((a * 16 + b) * 16 + c)) ts (hex_digit d # rest)"
    using lex_unicode_more [OF hex_value_hex_digit [OF assms(3)], of 2 acc "a * 16 + b"]
    by (simp add: numeral_3_eq_3)
  also have "\<dots> = lex (LString (acc @ [of_nat (((a * 16 + b) * 16 + c) * 16 + d)])) ts rest"
    by (rule lex_unicode_last [OF hex_value_hex_digit [OF assms(4)]])
  finally show ?thesis .
qed

lemma base16_recompose:
  "(n::nat) = 16 * q1 + r0 \<Longrightarrow> q1 = 16 * q2 + r1 \<Longrightarrow> q2 = 16 * q3 + r2 \<Longrightarrow>
   ((q3 * 16 + r2) * 16 + r1) * 16 + r0 = n"
  by simp

lemma base16_digits:
  "n < 65536 \<Longrightarrow>
   ((n div 4096 mod 16 * 16 + n div 256 mod 16) * 16 + n div 16 mod 16) * 16 + n mod 16
     = (n::nat)"
proof -
  assume n: "n < 65536"
  have a: "n = 16 * (n div 16) + n mod 16" by simp
  have b: "n div 16 = 16 * (n div 256) + n div 16 mod 16"
    using div_mult_mod_eq [of "n div 16" 16] by (simp add: div_mult2_eq [symmetric])
  have c: "n div 256 = 16 * (n div 4096) + n div 256 mod 16"
    using div_mult_mod_eq [of "n div 256" 16] by (simp add: div_mult2_eq [symmetric])
  have d: "n div 4096 mod 16 = n div 4096" using n by simp
  show ?thesis unfolding d by (rule base16_recompose [OF a b c])
qed

lemma unat_16_bound: "unat (c :: 16 word) < 65536"
  using unsigned_less [of c] by simp

lemma lex_string_escape_u:
  "lex (LString acc) ts (0x5C # 0x75 # cs) = lex (LUnicode acc 0 0) ts cs"
  by (simp add: lex_step_def)

lemma lex_unicode_escape:
  "lex (LString acc) ts (unicode_escape c @ rest) = lex (LString (acc @ [c])) ts rest"
proof -
  let ?n = "unat c"
  have n: "?n < 65536" by (rule unat_16_bound)
  have "lex (LString acc) ts (unicode_escape c @ rest)
     = lex (LUnicode acc 0 0) ts (hex_digit (?n div 4096 mod 16) # hex_digit (?n div 256 mod 16)
          # hex_digit (?n div 16 mod 16) # hex_digit (?n mod 16) # rest)"
    by (simp add: unicode_escape_def Let_def lex_string_escape_u del: lex.simps)
  also have "\<dots> = lex (LString (acc @ [of_nat (((?n div 4096 mod 16 * 16 + ?n div 256 mod 16) * 16
        + ?n div 16 mod 16) * 16 + ?n mod 16)])) ts rest"
    by (rule lex_hex4) simp_all
  also have "\<dots> = lex (LString (acc @ [of_nat ?n])) ts rest"
    by (simp only: base16_digits [OF n])
  finally show ?thesis by simp
qed

lemma lex_string_plain:
  "c \<noteq> 0x22 \<Longrightarrow> c \<noteq> 0x5C \<Longrightarrow> \<not> c < 0x20 \<Longrightarrow>
   lex (LString acc) ts (c # cs) = lex (LString (acc @ [c])) ts cs"
  by (simp add: lex_step_def)

lemma lex_string_short:
  "lex (LString acc) ts (0x5C # 0x62 # cs) = lex (LString (acc @ [0x08])) ts cs"
  "lex (LString acc) ts (0x5C # 0x74 # cs) = lex (LString (acc @ [0x09])) ts cs"
  "lex (LString acc) ts (0x5C # 0x6E # cs) = lex (LString (acc @ [0x0A])) ts cs"
  "lex (LString acc) ts (0x5C # 0x66 # cs) = lex (LString (acc @ [0x0C])) ts cs"
  "lex (LString acc) ts (0x5C # 0x72 # cs) = lex (LString (acc @ [0x0D])) ts cs"
  "lex (LString acc) ts (0x5C # 0x22 # cs) = lex (LString (acc @ [0x22])) ts cs"
  "lex (LString acc) ts (0x5C # 0x5C # cs) = lex (LString (acc @ [0x5C])) ts cs"
  by (simp_all add: lex_step_def)

lemma lex_string_close:
  "lex (LString acc) ts (0x22 # cs) = lex LIdle (ts @ [TString acc]) cs"
  by (simp add: lex_step_def)

lemma surrogate_plain:
  "is_high_surrogate c \<or> is_low_surrogate c \<Longrightarrow> c \<noteq> 0x22 \<and> c \<noteq> 0x5C \<and> \<not> c < 0x20"
  by (auto simp: is_high_surrogate_def is_low_surrogate_def word_le_nat_alt word_less_nat_alt)

lemma surrogate_disjoint: "is_high_surrogate c \<Longrightarrow> \<not> is_low_surrogate c"
  by (auto simp: is_high_surrogate_def is_low_surrogate_def word_le_nat_alt)

lemma quote_units_short:
  "quote_units (0x08 # cs) = [0x5C, 0x62] @ quote_units cs"
  "quote_units (0x09 # cs) = [0x5C, 0x74] @ quote_units cs"
  "quote_units (0x0A # cs) = [0x5C, 0x6E] @ quote_units cs"
  "quote_units (0x0C # cs) = [0x5C, 0x66] @ quote_units cs"
  "quote_units (0x0D # cs) = [0x5C, 0x72] @ quote_units cs"
  "quote_units (0x22 # cs) = [0x5C, 0x22] @ quote_units cs"
  "quote_units (0x5C # cs) = [0x5C, 0x5C] @ quote_units cs"
  by (subst quote_units.simps, simp del: quote_units.simps(2))+

lemma quote_units_pair:
  assumes "is_high_surrogate c" "is_low_surrogate d"
  shows "quote_units (c # d # ds) = c # d # quote_units ds"
proof -
  have "c \<noteq> 0x22 \<and> c \<noteq> 0x5C \<and> \<not> c < 0x20" using assms(1) surrogate_plain by blast
  moreover have "c \<noteq> 0x08 \<and> c \<noteq> 0x09 \<and> c \<noteq> 0x0A \<and> c \<noteq> 0x0C \<and> c \<noteq> 0x0D"
    using calculation by auto
  ultimately show ?thesis
    using assms by (subst quote_units.simps) (simp del: quote_units.simps(2))
qed

lemma quote_units_escaped:
  assumes "c < 0x20 \<or> is_low_surrogate c
           \<or> (is_high_surrogate c \<and> (case cs of [] \<Rightarrow> True | d # ds \<Rightarrow> \<not> is_low_surrogate d))"
    and "c \<noteq> 0x08" "c \<noteq> 0x09" "c \<noteq> 0x0A" "c \<noteq> 0x0C" "c \<noteq> 0x0D"
  shows "quote_units (c # cs) = unicode_escape c @ quote_units cs"
proof -
  have "c \<noteq> 0x22 \<and> c \<noteq> 0x5C"
    using assms(1) surrogate_plain [of c] by auto
  then show ?thesis
    using assms surrogate_disjoint [of c]
    by (subst quote_units.simps) (auto simp del: quote_units.simps(2) split: list.splits)
qed

lemma quote_units_plain:
  assumes "\<not> c < 0x20" "c \<noteq> 0x22" "c \<noteq> 0x5C" "\<not> is_high_surrogate c" "\<not> is_low_surrogate c"
  shows "quote_units (c # cs) = c # quote_units cs"
proof -
  have "c \<noteq> 0x08 \<and> c \<noteq> 0x09 \<and> c \<noteq> 0x0A \<and> c \<noteq> 0x0C \<and> c \<noteq> 0x0D"
    using assms(1) by auto
  then show ?thesis
    using assms by (subst quote_units.simps) (simp del: quote_units.simps(2))
qed

lemma lex_after_short:
  assumes IH: "\<And>acc. lex (LString acc) ts (quote_units cs @ 0x22 # rest)
                 = lex LIdle (ts @ [TString (acc @ cs)]) rest"
    and c: "c = 0x08 \<or> c = 0x09 \<or> c = 0x0A \<or> c = 0x0C \<or> c = 0x0D \<or> c = 0x22 \<or> c = 0x5C"
  shows "lex (LString acc) ts (quote_units (c # cs) @ 0x22 # rest)
           = lex LIdle (ts @ [TString (acc @ c # cs)]) rest"
proof -
  have "lex (LString acc) ts (quote_units (c # cs) @ 0x22 # rest)
          = lex (LString (acc @ [c])) ts (quote_units cs @ 0x22 # rest)"
    using c by (elim disjE) (simp_all only: quote_units_short lex_string_short append_Cons append_Nil)
  then show ?thesis by (simp only: IH append_assoc append_Cons append_Nil)
qed

lemma lex_after_escaped:
  assumes IH: "\<And>acc. lex (LString acc) ts (quote_units cs @ 0x22 # rest)
                 = lex LIdle (ts @ [TString (acc @ cs)]) rest"
    and q: "quote_units (c # cs) = unicode_escape c @ quote_units cs"
  shows "lex (LString acc) ts (quote_units (c # cs) @ 0x22 # rest)
           = lex LIdle (ts @ [TString (acc @ c # cs)]) rest"
proof -
  have "lex (LString acc) ts (quote_units (c # cs) @ 0x22 # rest)
          = lex (LString (acc @ [c])) ts (quote_units cs @ 0x22 # rest)"
    by (simp only: q append_assoc lex_unicode_escape)
  then show ?thesis by (simp only: IH append_assoc append_Cons append_Nil)
qed

lemma lex_after_plain:
  assumes IH: "\<And>acc. lex (LString acc) ts (quote_units cs @ 0x22 # rest)
                 = lex LIdle (ts @ [TString (acc @ cs)]) rest"
    and q: "quote_units (c # cs) = c # quote_units cs"
    and p: "c \<noteq> 0x22" "c \<noteq> 0x5C" "\<not> c < 0x20"
  shows "lex (LString acc) ts (quote_units (c # cs) @ 0x22 # rest)
           = lex LIdle (ts @ [TString (acc @ c # cs)]) rest"
proof -
  have "lex (LString acc) ts (quote_units (c # cs) @ 0x22 # rest)
          = lex (LString (acc @ [c])) ts (quote_units cs @ 0x22 # rest)"
    by (simp only: q append_Cons lex_string_plain [OF p])
  then show ?thesis by (simp only: IH append_assoc append_Cons append_Nil)
qed

lemma lex_after_pair:
  assumes IH: "\<And>acc. lex (LString acc) ts (quote_units ds @ 0x22 # rest)
                 = lex LIdle (ts @ [TString (acc @ ds)]) rest"
    and h: "is_high_surrogate c" and l: "is_low_surrogate d"
  shows "lex (LString acc) ts (quote_units (c # d # ds) @ 0x22 # rest)
           = lex LIdle (ts @ [TString (acc @ c # d # ds)]) rest"
proof -
  have pc: "c \<noteq> 0x22" "c \<noteq> 0x5C" "\<not> c < 0x20" using h surrogate_plain by blast+
  have pd: "d \<noteq> 0x22" "d \<noteq> 0x5C" "\<not> d < 0x20" using l surrogate_plain by blast+
  have "lex (LString acc) ts (quote_units (c # d # ds) @ 0x22 # rest)
          = lex (LString ((acc @ [c]) @ [d])) ts (quote_units ds @ 0x22 # rest)"
    by (simp only: quote_units_pair [OF h l] append_Cons lex_string_plain [OF pc]
          lex_string_plain [OF pd])
  then show ?thesis by (simp only: IH append_assoc append_Cons append_Nil)
qed

lemma lex_quote_units:
  "lex (LString acc) ts (quote_units s @ 0x22 # rest) = lex LIdle (ts @ [TString (acc @ s)]) rest"
proof (induction s arbitrary: acc rule: quote_units.induct)
  case 1
  show ?case by (simp only: quote_units.simps(1) append_Nil append_Nil2 lex_string_close)
next
  case (2 c cs)
  note IH = 2
  show ?case
  proof (cases "c = 0x08 \<or> c = 0x09 \<or> c = 0x0A \<or> c = 0x0C \<or> c = 0x0D \<or> c = 0x22 \<or> c = 0x5C")
    case True
    have "\<And>acc. lex (LString acc) ts (quote_units cs @ 0x22 # rest)
                 = lex LIdle (ts @ [TString (acc @ cs)]) rest"
      using True IH(1-7) by blast
    then show ?thesis using True by (rule lex_after_short)
  next
    case False
    then have nshort: "c \<noteq> 0x08" "c \<noteq> 0x09" "c \<noteq> 0x0A" "c \<noteq> 0x0C" "c \<noteq> 0x0D"
      "c \<noteq> 0x22" "c \<noteq> 0x5C" by simp_all
    show ?thesis
    proof (cases "c < 0x20")
      case True
      show ?thesis
        by (rule lex_after_escaped [OF IH(8) [OF nshort True]])
           (rule quote_units_escaped, simp_all add: True nshort)
    next
      case nctl: False
      show ?thesis
      proof (cases "is_high_surrogate c")
        case high: True
        show ?thesis
        proof (cases cs)
          case Nil
          have q: "quote_units (c # cs) = unicode_escape c @ quote_units cs"
            by (rule quote_units_escaped) (simp_all add: high Nil nshort)
          have base: "\<And>acc. lex (LString acc) ts (quote_units cs @ 0x22 # rest)
                 = lex LIdle (ts @ [TString (acc @ cs)]) rest"
            unfolding Nil
            by (simp only: quote_units.simps(1) append_Nil append_Nil2 lex_string_close)
          show ?thesis by (rule lex_after_escaped [OF base q])
        next
          case (Cons d ds)
          show ?thesis
          proof (cases "is_low_surrogate d")
            case True
            show ?thesis
              unfolding Cons
              by (rule lex_after_pair [OF IH(9) [OF nshort nctl high Cons True] high True])
          next
            case False
            show ?thesis
              by (rule lex_after_escaped [OF IH(10) [OF nshort nctl high Cons False]])
                 (rule quote_units_escaped, simp_all add: high Cons False nshort)
          qed
        qed
      next
        case nhigh: False
        show ?thesis
        proof (cases "is_low_surrogate c")
          case True
          show ?thesis
            by (rule lex_after_escaped [OF IH(11) [OF nshort nctl nhigh True]])
               (rule quote_units_escaped, simp_all add: True nshort)
        next
          case False
          show ?thesis
            by (rule lex_after_plain [OF IH(12) [OF nshort nctl nhigh False]])
               (rule quote_units_plain, simp_all add: nctl nshort nhigh False)
        qed
      qed
    qed
  qed
qed

lemma lex_idle_punct:
  "lex LIdle ts (0x7B # cs) = lex LIdle (ts @ [TLBrace]) cs"
  "lex LIdle ts (0x7D # cs) = lex LIdle (ts @ [TRBrace]) cs"
  "lex LIdle ts (0x3A # cs) = lex LIdle (ts @ [TColon]) cs"
  "lex LIdle ts (0x2C # cs) = lex LIdle (ts @ [TComma]) cs"
  "lex LIdle ts (0x22 # cs) = lex (LString []) ts cs"
  "lex LIdle ts [] = Some ts"
  by (simp_all add: lex_step_def lex_idle_def lex_end_def)

lemma lex_quoted:
  "lex LIdle ts (QuoteJSONString s @ rest) = lex LIdle (ts @ [TString s]) rest"
  using lex_quote_units [of "[]" ts s rest]
  by (simp add: QuoteJSONString_def lex_idle_punct del: lex.simps)

lemma lex_stringify_pair:
  "lex LIdle [] (JSON_stringify [(k1, v1), (k2, v2)])
     = Some [TLBrace, TString k1, TColon, TString v1, TComma,
             TString k2, TColon, TString v2, TRBrace]"
proof -
  have "JSON_stringify [(k1, v1), (k2, v2)]
      = 0x7B # (QuoteJSONString k1 @ 0x3A # (QuoteJSONString v1 @ 0x2C
          # (QuoteJSONString k2 @ 0x3A # (QuoteJSONString v2 @ [0x7D]))))"
    by (simp add: JSON_stringify_def ascii_def)
  then show ?thesis
    by (simp add: lex_idle_punct lex_quoted del: lex.simps)
qed

lemma JSON_parse_stringify_pair:
  "JSON_parse (JSON_stringify [(k1, v1), (k2, v2)])
     = Inr (JObject [(k1, JString v1), (k2, JString v2)])"
  by (simp add: JSON_parse_def lex_stringify_pair start_value_def)

section \<open>Category actions\<close>

lemma matching_category:
  assumes "category \<in> set (map fst CATEGORIES)"
  shows "matching (ascii ''category_'' @ category) action_listeners = [category_action category]"
proof -
  from assms consider "category = ascii ''accounting''" | "category = ascii ''hr''"
    | "category = ascii ''admin''" | "category = ascii ''sales''"
    by (auto simp: CATEGORIES_def)
  then show ?thesis
    by cases (simp_all add: matching_def action_listeners_def CATEGORIES_def ascii_def)
qed

lemma category_action_no_industry:
  assumes "userContexts (ba_user_id body) = None
         \<or> (\<exists>ctx. userContexts (ba_user_id body) = Some ctx \<and> truthy_industry ctx = None)"
  shows "category_action category w body userContexts
       = (userContexts,
          case ack_outcome w of
            None \<Rightarrow> [Ack]
          | Some e \<Rightarrow> [Ack, ConsoleError (ascii ''Error opening modal:'') e])"
  using assms by (auto simp: category_action_def split: option.splits)

text \<open>
  Claim C1. When the user has no context, or a context whose \<open>industry\<close> is not set (the
  field is missing or holds the empty string), firing any of the four category actions
  leaves \<open>userContexts\<close> as it was and opens no modal: once acknowledged, the handler
  returns without any other call.
\<close>

theorem category_action_without_industry:
  assumes "category \<in> set (map fst CATEGORIES)"
    and "ba_actions body = a # others"
    and "action_id a = ascii ''category_'' @ category"
    and "userContexts (ba_user_id body) = None
         \<or> (\<exists>ctx. userContexts (ba_user_id body) = Some ctx \<and> truthy_industry ctx = None)"
  shows "fst (dispatch w (BlockAction body) userContexts) = userContexts
       \<and> (\<forall>t v. ViewsOpen t v \<notin> set (snd (dispatch w (BlockAction body) userContexts)))
       \<and> snd (dispatch w (BlockAction body) userContexts)
           = (case ack_outcome w of
                None \<Rightarrow> [Ack]
              | Some e \<Rightarrow> [Ack, ConsoleError (ascii ''Error opening modal:'') e])"
proof -
  have "dispatch w (BlockAction body) userContexts = category_action category w body userContexts"
    using assms(2,3) by (simp add: dispatch_def matching_category [OF assms(1)])
  then show ?thesis
    by (simp add: category_action_no_industry [where userContexts = userContexts and body = body,
          OF assms(4)] split: option.splits)
qed

theorem category_action_without_industry_witness:
  "ascii ''hr'' \<in> set (map fst CATEGORIES)
   \<and> dispatch all_succeed (BlockAction (click (ascii ''category_hr'') None)) Map.empty
       = (Map.empty, [Ack])
   \<and> dispatch all_succeed (BlockAction (click (ascii ''category_hr'') None))
         [ascii ''U1'' \<mapsto> [ascii ''industry'' \<mapsto> []]]
       = ([ascii ''U1'' \<mapsto> [ascii ''industry'' \<mapsto> []]], [Ack])"
proof -
  let ?body = "click (ascii ''category_hr'') None"
  let ?a = "\<lparr>action_id = ascii ''category_hr'', selected_option = None\<rparr>"
  let ?st = "[ascii ''U1'' \<mapsto> [ascii ''industry'' \<mapsto> ([] :: js_string)]]"
  have c: "ascii ''hr'' \<in> set (map fst CATEGORIES)" by (simp add: CATEGORIES_def)
  have b: "ba_actions ?body = ?a # []" by (simp add: click_def)
  have i: "action_id ?a = ascii ''category_'' @ ascii ''hr''" by (simp add: ascii_def)
  have n1: "Map.empty (ba_user_id ?body) = None
         \<or> (\<exists>ctx. Map.empty (ba_user_id ?body) = Some ctx \<and> truthy_industry ctx = None)"
    by simp
  have n2: "?st (ba_user_id ?body) = None
         \<or> (\<exists>ctx. ?st (ba_user_id ?body) = Some ctx \<and> truthy_industry ctx = None)"
    by (simp add: click_def truthy_industry_def)
  have w: "ack_outcome all_succeed = None" by (simp add: all_succeed_def)
  show ?thesis
    using c
      category_action_without_industry [where userContexts = Map.empty and body = ?body
        and w = all_succeed and category = "ascii ''hr''" and a = ?a and others = "[]",
        OF c b i n1]
      category_action_without_industry [where userContexts = ?st and body = ?body
        and w = all_succeed and category = "ascii ''hr''" and a = ?a and others = "[]",
        OF c b i n2]
    by (simp add: w prod_eq_iff)
qed

lemma destructure_pair:
  "destructure (JObject [(ascii ''industry'', i), (ascii ''category'', c)]) = Inr (Some i, Some c)"
  by (simp add: destructure_def ascii_def)

lemma metadata_round_trip:
  "\<exists>v. JSON_parse (JSON_stringify [(ascii ''industry'', I), (ascii ''category'', C)]) = Inr v
       \<and> destructure v = Inr (Some (JString I), Some (JString C))"
proof (intro exI conjI)
  show "JSON_parse (JSON_stringify [(ascii ''industry'', I), (ascii ''category'', C)])
      = Inr (JObject [(ascii ''industry'', JString I), (ascii ''category'', JString C)])"
    by (rule JSON_parse_stringify_pair)
  show "destructure (JObject [(ascii ''industry'', JString I), (ascii ''category'', JString C)])
      = Inr (Some (JString I), Some (JString C))"
    by (rule destructure_pair)
qed

text \<open>
  Claim C2. When the user's context holds an industry \<open>I\<close> (a non-empty string) and the
  acknowledgement succeeds, the category action for any category \<open>C\<close> opens the query modal,
  and the \<open>private_metadata\<close> attached to it, parsed and destructured as the submit handler
  does, gives back exactly \<open>I\<close> and \<open>C\<close>, for all strings whatsoever.
\<close>

theorem category_action_metadata_round_trip:
  assumes "userContexts (ba_user_id body) = Some userContext"
    and "userContext (ascii ''industry'') = Some I"
    and "I \<noteq> []"
    and "ack_outcome w = None"
  shows "\<exists>modal metadata parsed log.
           category_action C w body userContexts
             = (userContexts, [Ack, ViewsOpen (ba_trigger_id body) modal] @ log)
         \<and> view_private_metadata modal = Some metadata
         \<and> metadata = JSON_stringify [(ascii ''industry'', I), (ascii ''category'', C)]
         \<and> JSON_parse metadata = Inr parsed
         \<and> destructure parsed = Inr (Some (JString I), Some (JString C))"
proof -
  from assms(2,3) have t: "truthy_industry userContext = Some I"
    by (simp add: truthy_industry_def)
  obtain v where v: "JSON_parse (JSON_stringify [(ascii ''industry'', I), (ascii ''category'', C)]) = Inr v"
    "destructure v = Inr (Some (JString I), Some (JString C))"
    using metadata_round_trip by blast
  have m: "view_private_metadata (query_modal I C)
         = Some (JSON_stringify [(ascii ''industry'', I), (ascii ''category'', C)])"
    by (simp add: view_private_metadata_def query_modal_def)
  have "category_action C w body userContexts
      = (userContexts, [Ack, ViewsOpen (ba_trigger_id body) (query_modal I C)]
           @ (case views_open_outcome w of
                None \<Rightarrow> []
              | Some error \<Rightarrow> [ConsoleError (ascii ''Error opening modal:'') error]))"
    using assms(1,4) t by (simp add: category_action_def)
  with m v show ?thesis by blast
qed

theorem category_action_metadata_round_trip_witness:
  "\<exists>modal metadata parsed.
      category_action (ascii ''hr'') all_succeed (click (ascii ''category_hr'') None)
          [ascii ''U1'' \<mapsto> [ascii ''industry'' \<mapsto> ascii ''retail'']]
        = ([ascii ''U1'' \<mapsto> [ascii ''industry'' \<mapsto> ascii ''retail'']],
           [Ack, ViewsOpen (ascii ''T1'') modal])
    \<and> view_private_metadata modal = Some metadata
    \<and> metadata = ascii ''{\"industry\":\"retail\",\"category\":\"hr\"}''
    \<and> JSON_parse metadata = Inr parsed
    \<and> destructure parsed
        = Inr (Some (JString (ascii ''retail'')), Some (JString (ascii ''hr'')))"
proof -
  let ?body = "click (ascii ''category_hr'') None"
  let ?ctx = "[ascii ''industry'' \<mapsto> ascii ''retail'']"
  let ?st = "[ascii ''U1'' \<mapsto> ?ctx]"
  have a: "?st (ba_user_id ?body) = Some ?ctx" by (simp add: click_def)
  have b: "?ctx (ascii ''industry'') = Some (ascii ''retail'')" by simp
  have c: "ascii ''retail'' \<noteq> []" by (simp add: ascii_def)
  have d: "ack_outcome all_succeed = None" by (simp add: all_succeed_def)
  have o: "views_open_outcome all_succeed = None" by (simp add: all_succeed_def)
  have s: "JSON_stringify [(ascii ''industry'', ascii ''retail''), (ascii ''category'', ascii ''hr'')]
         = ascii ''{\"industry\":\"retail\",\"category\":\"hr\"}''"
    by (simp add: JSON_stringify_def QuoteJSONString_def ascii_def is_high_surrogate_def
          is_low_surrogate_def)
  have t: "ba_trigger_id ?body = ascii ''T1''" by (simp add: click_def)
  from category_action_metadata_round_trip
         [where userContexts = ?st and body = ?body and userContext = ?ctx
            and I = "ascii ''retail''" and w = all_succeed and C = "ascii ''hr''", OF a b c d]
  obtain modal metadata parsed log where r:
    "category_action (ascii ''hr'') all_succeed ?body ?st
       = (?st, [Ack, ViewsOpen (ba_trigger_id ?body) modal] @ log)"
    "view_private_metadata modal = Some metadata"
    "metadata = JSON_stringify [(ascii ''industry'', ascii ''retail''), (ascii ''category'', ascii ''hr'')]"
    "JSON_parse metadata = Inr parsed"
    "destructure parsed = Inr (Some (JString (ascii ''retail'')), Some (JString (ascii ''hr'')))"
    by blast
  have "log = []"
    using r(1) a by (simp add: category_action_def d o truthy_industry_def c)
  with r show ?thesis unfolding s t by auto
qed

section \<open>The home view\<close>

lemma industry_option_values:
  "map option_value industry_options
     = [ascii ''manufacturing'', ascii ''construction'', ascii ''retail'', ascii ''agriculture'',
        ascii ''service'', ascii ''professional'', ascii ''medical'', ascii ''restaurant'']"
  by (simp add: industry_options_def INDUSTRIES_def option_value_def)

lemma home_base_elements:
  "concat (map block_elements home_base_blocks)
     = [StaticSelect (PlainText [0x696D, 0x7A2E, 0x3092, 0x9078, 0x629E] (Some True))
          (ascii ''select_industry'') industry_options]"
  by (simp add: home_base_blocks_def block_elements_def)

lemma home_base_no_label:
  "Section (Mrkdwn (selected_industry_label v)) \<notin> set home_base_blocks"
  by (simp add: home_base_blocks_def selected_industry_label_def ascii_def)

lemma home_base_no_buttons:
  "Actions category_buttons \<notin> set home_base_blocks"
  by (simp add: home_base_blocks_def category_buttons_def CATEGORIES_def)

lemma matching_app_home_opened:
  "matching (ascii ''app_home_opened'') event_listeners = [app_home_opened]"
  by (simp add: matching_def event_listeners_def)

lemma home_blocks_empty: "home_blocks Map.empty = home_base_blocks"
  by (simp add: home_blocks_def truthy_industry_def)

text \<open>
  Claim C5. For a user with no entry in \<open>userContexts\<close>, opening the home tab publishes
  the three base blocks and nothing else: the only interactive element is the industry
  selection control, which offers exactly the 8 fixed industries in their declared order;
  there is no button, no category block and no label of a selected industry.
\<close>

theorem home_view_never_interacted:
  assumes "userContexts userId = None"
  shows "dispatch w (PlatformEvent (ascii ''app_home_opened'') userId) userContexts
           = (userContexts,
              ViewsPublish userId (HomeView home_base_blocks)
              # (case views_publish_outcome w of
                   None \<Rightarrow> []
                 | Some error \<Rightarrow> [ConsoleError (ascii ''Error updating home tab:'') error]))
       \<and> length home_base_blocks = 3
       \<and> concat (map block_elements home_base_blocks)
           = [StaticSelect (PlainText [0x696D, 0x7A2E, 0x3092, 0x9078, 0x629E] (Some True))
                (ascii ''select_industry'') industry_options]
       \<and> map option_value industry_options
           = [ascii ''manufacturing'', ascii ''construction'', ascii ''retail'',
              ascii ''agriculture'', ascii ''service'', ascii ''professional'',
              ascii ''medical'', ascii ''restaurant'']
       \<and> map option_value industry_options = map fst INDUSTRIES
       \<and> \<not> (\<exists>e \<in> set (concat (map block_elements home_base_blocks)). is_button e)
       \<and> Actions category_buttons \<notin> set home_base_blocks
       \<and> (\<forall>v. Section (Mrkdwn (selected_industry_label v)) \<notin> set home_base_blocks)"
proof -
  have d: "dispatch w (PlatformEvent (ascii ''app_home_opened'') userId) userContexts
           = (userContexts,
              ViewsPublish userId (HomeView home_base_blocks)
              # (case views_publish_outcome w of
                   None \<Rightarrow> []
                 | Some error \<Rightarrow> [ConsoleError (ascii ''Error updating home tab:'') error]))"
    using assms
    by (simp add: dispatch_def matching_app_home_opened app_home_opened_def updateHomeTab_def
          home_blocks_empty)
  have n: "length home_base_blocks = 3" by (simp add: home_base_blocks_def)
  have b: "\<not> (\<exists>e \<in> set (concat (map block_elements home_base_blocks)). is_button e)"
    by (simp only: home_base_elements) (simp add: is_button_def)
  have f: "map option_value industry_options = map fst INDUSTRIES"
    by (simp add: industry_options_def option_value_def INDUSTRIES_def)
  have v: "\<forall>v. Section (Mrkdwn (selected_industry_label v)) \<notin> set home_base_blocks"
    using home_base_no_label by (rule allI)
  show ?thesis
    by (rule conjI, rule d, rule conjI, rule n, rule conjI, rule home_base_elements,
        rule conjI, rule industry_option_values, rule conjI, rule f, rule conjI, rule b,
        rule conjI, rule home_base_no_buttons, rule v)
qed

theorem home_view_never_interacted_witness:
  "(Map.empty :: user_contexts) (ascii ''U1'') = None
   \<and> dispatch all_succeed (PlatformEvent (ascii ''app_home_opened'') (ascii ''U1'')) Map.empty
       = (Map.empty, [ViewsPublish (ascii ''U1'') (HomeView home_base_blocks)])"
proof -
  have h: "(Map.empty :: user_contexts) (ascii ''U1'') = None" by simp
  have p: "views_publish_outcome all_succeed = None" by (simp add: all_succeed_def)
  from home_view_never_interacted [where userContexts = Map.empty and userId = "ascii ''U1''"
      and w = all_succeed, OF h]
  have "dispatch all_succeed (PlatformEvent (ascii ''app_home_opened'') (ascii ''U1'')) Map.empty
       = (Map.empty, [ViewsPublish (ascii ''U1'') (HomeView home_base_blocks)])"
    unfolding p by simp
  with h show ?thesis by (rule conjI)
qed

section \<open>Industry selection\<close>

lemma matching_select_industry:
  "matching (ascii ''select_industry'') action_listeners = [select_industry]"
  by (simp add: matching_def action_listeners_def CATEGORIES_def ascii_def)

lemma industries_key:
  assumes "map_of INDUSTRIES V = Some label"
  shows "V \<noteq> []" and "get_property INDUSTRIES V = Own label"
  using assms by (auto simp: INDUSTRIES_def get_property_def ascii_def split: if_splits)

lemma truthy_spread_industry:
  "V \<noteq> [] \<Longrightarrow> truthy_industry (spread_industry existing V) = Some V"
  by (simp add: truthy_industry_def spread_industry_def)

lemma category_buttons_explicit:
  "category_buttons
     = [Button (PlainText [0x7D4C, 0x7406] (Some True)) (ascii ''accounting'')
          (ascii ''category_accounting''),
        Button (PlainText [0x4EBA, 0x4E8B] (Some True)) (ascii ''hr'') (ascii ''category_hr''),
        Button (PlainText [0x7DCF, 0x52D9] (Some True)) (ascii ''admin'')
          (ascii ''category_admin''),
        Button (PlainText [0x55B6, 0x696D, 0x652F, 0x63F4] (Some True)) (ascii ''sales'')
          (ascii ''category_sales'')]"
  by (simp add: category_buttons_def CATEGORIES_def ascii_def)

lemma selected_value_first:
  "ba_actions body = a # others \<Longrightarrow> selected_option a = Some V \<Longrightarrow> selected_value body = Inr V"
  by (simp add: selected_value_def)

lemma spread_industry_again:
  "spread_industry (Some (spread_industry existing V)) V = spread_industry existing V"
  by (simp add: spread_industry_def)

lemma select_industry_store:
  "fst (select_industry w body userContexts)
     = (case (ack_outcome w, selected_value body) of
          (None, Inr V) \<Rightarrow>
            userContexts(ba_user_id body \<mapsto> spread_industry (userContexts (ba_user_id body)) V)
        | _ \<Rightarrow> userContexts)"
  by (simp add: select_industry_def Let_def split: option.splits sum.splits)

lemma select_industry_again:
  assumes "selected_value body = Inr V"
  shows "fst (select_industry w2 body
            (userContexts(ba_user_id body \<mapsto> spread_industry (userContexts (ba_user_id body)) V)))
       = userContexts(ba_user_id body \<mapsto> spread_industry (userContexts (ba_user_id body)) V)"
  by (simp add: select_industry_store assms spread_industry_again split: option.splits)

lemma dispatch_select_industry:
  "ba_actions body = a # others \<Longrightarrow> action_id a = ascii ''select_industry'' \<Longrightarrow>
   dispatch w (BlockAction body) userContexts = select_industry w body userContexts"
  by (simp add: dispatch_def matching_select_industry split: prod.splits)

text \<open>
  Claim C6. For an industry \<open>V\<close> of the fixed table with display name \<open>label\<close>, the
  action \<open>select_industry\<close> with value \<open>V\<close>, once acknowledged, writes \<open>V\<close> into the
  user's context and publishes the home view made of the base blocks, a label echoing the
  display name, and the four category buttons in their declared order. Firing the same
  selection again, whatever the outside world does then, leaves \<open>userContexts\<close> unchanged.
\<close>

theorem select_industry_home_view:
  assumes "map_of INDUSTRIES V = Some label"
    and "ba_actions body = a # others"
    and "action_id a = ascii ''select_industry''"
    and "selected_option a = Some V"
    and "ack_outcome w = None"
  shows "dispatch w (BlockAction body) userContexts
           = (userContexts(ba_user_id body \<mapsto>
                spread_industry (userContexts (ba_user_id body)) V),
              [Ack,
               ViewsPublish (ba_user_id body)
                 (HomeView (home_base_blocks
                    @ [Section (Mrkdwn
                         (ascii ''*'' @ [0x9078, 0x629E, 0x3055, 0x308C, 0x305F, 0x696D, 0x7A2E]
                          @ ascii '': '' @ label @ ascii ''*''
                          @ [0x000A, 0x4EE5, 0x4E0B, 0x306E, 0x30AB, 0x30C6, 0x30B4, 0x30EA,
                             0x304B, 0x3089, 0x9078, 0x629E, 0x3057, 0x3066, 0x304F, 0x3060,
                             0x3055, 0x3044, 0xFF1A])),
                       Actions category_buttons]))]
              @ (case views_publish_outcome w of
                   None \<Rightarrow> []
                 | Some error \<Rightarrow> [ConsoleError (ascii ''Error updating home tab:'') error]))
       \<and> category_buttons
           = [Button (PlainText [0x7D4C, 0x7406] (Some True)) (ascii ''accounting'')
                (ascii ''category_accounting''),
              Button (PlainText [0x4EBA, 0x4E8B] (Some True)) (ascii ''hr'')
                (ascii ''category_hr''),
              Button (PlainText [0x7DCF, 0x52D9] (Some True)) (ascii ''admin'')
                (ascii ''category_admin''),
              Button (PlainText [0x55B6, 0x696D, 0x652F, 0x63F4] (Some True)) (ascii ''sales'')
                (ascii ''category_sales'')]
       \<and> (\<forall>w2. fst (dispatch w2 (BlockAction body)
                    (fst (dispatch w (BlockAction body) userContexts)))
                = fst (dispatch w (BlockAction body) userContexts))"
proof -
  let ?uid = "ba_user_id body"
  let ?st = "userContexts(?uid \<mapsto> spread_industry (userContexts ?uid) V)"
  note sv = selected_value_first [OF assms(2,4)]
  note ds = dispatch_select_industry [OF assms(2,3)]
  have hb: "home_blocks (spread_industry (userContexts ?uid) V)
          = home_base_blocks
            @ [Section (Mrkdwn (selected_industry_label V)), Actions category_buttons]"
    by (simp add: home_blocks_def truthy_spread_industry [OF industries_key(1) [OF assms(1)]])
  have lb: "selected_industry_label V
          = ascii ''*'' @ [0x9078, 0x629E, 0x3055, 0x308C, 0x305F, 0x696D, 0x7A2E]
            @ ascii '': '' @ label @ ascii ''*''
            @ [0x000A, 0x4EE5, 0x4E0B, 0x306E, 0x30AB, 0x30C6, 0x30B4, 0x30EA,
               0x304B, 0x3089, 0x9078, 0x629E, 0x3057, 0x3066, 0x304F, 0x3060,
               0x3055, 0x3044, 0xFF1A]"
    by (simp add: selected_industry_label_def industries_key(2) [OF assms(1)] template_prop_def)
  have first: "select_industry w body userContexts
       = (?st, [Ack, ViewsPublish ?uid (HomeView (home_blocks (spread_industry (userContexts ?uid) V)))]
              @ (case views_publish_outcome w of
                   None \<Rightarrow> []
                 | Some error \<Rightarrow> [ConsoleError (ascii ''Error updating home tab:'') error]))"
    by (simp add: select_industry_def Let_def assms(5) sv updateHomeTab_def)
  have idem: "\<forall>w2. fst (dispatch w2 (BlockAction body)
                    (fst (dispatch w (BlockAction body) userContexts)))
                = fst (dispatch w (BlockAction body) userContexts)"
    by (simp only: ds first fst_conv select_industry_again [OF sv]) simp
  show ?thesis
    by (rule conjI, simp only: ds first hb lb, rule conjI, rule category_buttons_explicit,
        rule idem)
qed

theorem select_industry_home_view_witness:
  "map_of INDUSTRIES (ascii ''retail'') = Some [0x5C0F, 0x58F2, 0x696D]
   \<and> dispatch all_succeed
         (BlockAction (click (ascii ''select_industry'') (Some (ascii ''retail'')))) Map.empty
       = ([ascii ''U1'' \<mapsto> [ascii ''industry'' \<mapsto> ascii ''retail'']],
          [Ack,
           ViewsPublish (ascii ''U1'')
             (HomeView (home_base_blocks
                @ [Section (Mrkdwn
                     (ascii ''*'' @ [0x9078, 0x629E, 0x3055, 0x308C, 0x305F, 0x696D, 0x7A2E]
                      @ ascii '': '' @ [0x5C0F, 0x58F2, 0x696D] @ ascii ''*''
                      @ [0x000A, 0x4EE5, 0x4E0B, 0x306E, 0x30AB, 0x30C6, 0x30B4, 0x30EA,
                         0x304B, 0x3089, 0x9078, 0x629E, 0x3057, 0x3066, 0x304F, 0x3060,
                         0x3055, 0x3044, 0xFF1A])),
                   Actions category_buttons]))])
   \<and> fst (dispatch all_succeed
            (BlockAction (click (ascii ''select_industry'') (Some (ascii ''retail''))))
            [ascii ''U1'' \<mapsto> [ascii ''industry'' \<mapsto> ascii ''retail'']])
       = [ascii ''U1'' \<mapsto> [ascii ''industry'' \<mapsto> ascii ''retail'']]"
proof -
  let ?body = "click (ascii ''select_industry'') (Some (ascii ''retail''))"
  let ?a = "\<lparr>action_id = ascii ''select_industry'', selected_option = Some (ascii ''retail'')\<rparr>"
  have k: "map_of INDUSTRIES (ascii ''retail'') = Some [0x5C0F, 0x58F2, 0x696D]"
    by (simp add: INDUSTRIES_def ascii_def)
  have b: "ba_actions ?body = ?a # []" by (simp add: click_def)
  have i: "action_id ?a = ascii ''select_industry''" by simp
  have o: "selected_option ?a = Some (ascii ''retail'')" by simp
  have w: "ack_outcome all_succeed = None" by (simp add: all_succeed_def)
  have p: "views_publish_outcome all_succeed = None" by (simp add: all_succeed_def)
  have u: "ba_user_id ?body = ascii ''U1''" by (simp add: click_def)
  have st: "Map.empty(ascii ''U1'' \<mapsto> spread_industry (Map.empty (ascii ''U1'')) (ascii ''retail''))
          = [ascii ''U1'' \<mapsto> [ascii ''industry'' \<mapsto> ascii ''retail'']]"
    by (simp add: spread_industry_def)
  note t = select_industry_home_view [where userContexts = Map.empty and body = ?body
      and w = all_succeed and a = ?a and others = "[]" and V = "ascii ''retail''"
      and label = "[0x5C0F, 0x58F2, 0x696D]", OF k b i o w, unfolded u p st]
  from t have first: "dispatch all_succeed (BlockAction ?body) Map.empty
       = ([ascii ''U1'' \<mapsto> [ascii ''industry'' \<mapsto> ascii ''retail'']],
          [Ack,
           ViewsPublish (ascii ''U1'')
             (HomeView (home_base_blocks
                @ [Section (Mrkdwn
                     (ascii ''*'' @ [0x9078, 0x629E, 0x3055, 0x308C, 0x305F, 0x696D, 0x7A2E]
                      @ ascii '': '' @ [0x5C0F, 0x58F2, 0x696D] @ ascii ''*''
                      @ [0x000A, 0x4EE5, 0x4E0B, 0x306E, 0x30AB, 0x30C6, 0x30B4, 0x30EA,
                         0x304B, 0x3089, 0x9078, 0x629E, 0x3057, 0x3066, 0x304F, 0x3060,
                         0x3055, 0x3044, 0xFF1A])),
                   Actions category_buttons]))])"
    by simp
  from t have "fst (dispatch all_succeed (BlockAction ?body)
                    (fst (dispatch all_succeed (BlockAction ?body) Map.empty)))
                = fst (dispatch all_succeed (BlockAction ?body) Map.empty)"
    by blast
  then have again: "fst (dispatch all_succeed (BlockAction ?body)
            [ascii ''U1'' \<mapsto> [ascii ''industry'' \<mapsto> ascii ''retail'']])
       = [ascii ''U1'' \<mapsto> [ascii ''industry'' \<mapsto> ascii ''retail'']]"
    unfolding first by simp
  show ?thesis
    by (rule conjI, rule k, rule conjI, rule first, rule again)
qed

text \<open>
  Claim C9. The industry selection merges into the existing context: when the user's context
  has a \<open>category\<close> field, then after the handler has run (with any selection, whether or
  not the acknowledgement succeeds) the context still has that field with the same value,
  and every field other than \<open>industry\<close> is as before; the only change, when the handler
  gets that far, is that \<open>industry\<close> holds the selected value.
\<close>

theorem select_industry_keeps_category:
  assumes "userContexts (ba_user_id body) = Some userContext"
    and "userContext (ascii ''category'') = Some c"
  shows "fst (select_industry w body userContexts) (ba_user_id body)
           = Some (case (ack_outcome w, selected_value body) of
                     (None, Inr V) \<Rightarrow> userContext(ascii ''industry'' \<mapsto> V)
                   | _ \<Rightarrow> userContext)
       \<and> (\<forall>V. (userContext(ascii ''industry'' \<mapsto> V)) (ascii ''category'') = Some c)
       \<and> (\<exists>userContext'.
             fst (select_industry w body userContexts) (ba_user_id body) = Some userContext'
           \<and> userContext' (ascii ''category'') = Some c
           \<and> (\<forall>field. field \<noteq> ascii ''industry'' \<longrightarrow> userContext' field = userContext field))"
proof -
  have ne: "ascii ''category'' \<noteq> ascii ''industry''" by (simp add: ascii_def)
  have a: "fst (select_industry w body userContexts) (ba_user_id body)
           = Some (case (ack_outcome w, selected_value body) of
                     (None, Inr V) \<Rightarrow> userContext(ascii ''industry'' \<mapsto> V)
                   | _ \<Rightarrow> userContext)"
    using assms(1)
    by (simp add: select_industry_store spread_industry_def split: option.splits sum.splits)
  have b: "\<forall>V. (userContext(ascii ''industry'' \<mapsto> V)) (ascii ''category'') = Some c"
    using assms(2) ne by simp
  have c: "\<exists>userContext'.
             fst (select_industry w body userContexts) (ba_user_id body) = Some userContext'
           \<and> userContext' (ascii ''category'') = Some c
           \<and> (\<forall>field. field \<noteq> ascii ''industry'' \<longrightarrow> userContext' field = userContext field)"
    unfolding a using assms(2) ne by (auto split: option.splits sum.splits)
  show ?thesis by (rule conjI, rule a, rule conjI, rule b, rule c)
qed

theorem select_industry_keeps_category_witness:
  "[ascii ''U1'' \<mapsto> [ascii ''industry'' \<mapsto> ascii ''retail'',
                        ascii ''category'' \<mapsto> ascii ''hr'']]
       (ba_user_id (click (ascii ''select_industry'') (Some (ascii ''medical''))))
     = Some [ascii ''industry'' \<mapsto> ascii ''retail'', ascii ''category'' \<mapsto> ascii ''hr'']
   \<and> [ascii ''industry'' \<mapsto> ascii ''retail'', ascii ''category'' \<mapsto> ascii ''hr'']
         (ascii ''category'') = Some (ascii ''hr'')
   \<and> fst (select_industry all_succeed
            (click (ascii ''select_industry'') (Some (ascii ''medical'')))
            [ascii ''U1'' \<mapsto> [ascii ''industry'' \<mapsto> ascii ''retail'',
                                 ascii ''category'' \<mapsto> ascii ''hr'']])
         (ascii ''U1'')
       = Some [ascii ''industry'' \<mapsto> ascii ''medical'', ascii ''category'' \<mapsto> ascii ''hr'']"
proof -
  let ?body = "click (ascii ''select_industry'') (Some (ascii ''medical''))"
  let ?ctx = "[ascii ''industry'' \<mapsto> ascii ''retail'', ascii ''category'' \<mapsto> ascii ''hr'']"
  let ?st = "[ascii ''U1'' \<mapsto> ?ctx]"
  have ne: "ascii ''category'' \<noteq> ascii ''industry''" by (simp add: ascii_def)
  have u: "ba_user_id ?body = ascii ''U1''" by (simp add: click_def)
  have a: "?st (ba_user_id ?body) = Some ?ctx" by (simp add: u)
  have b: "?ctx (ascii ''category'') = Some (ascii ''hr'')" by simp
  have w: "ack_outcome all_succeed = None" by (simp add: all_succeed_def)
  have v: "selected_value ?body = Inr (ascii ''medical'')"
    by (simp add: selected_value_def click_def)
  have m: "?ctx(ascii ''industry'' \<mapsto> ascii ''medical'')
         = [ascii ''industry'' \<mapsto> ascii ''medical'', ascii ''category'' \<mapsto> ascii ''hr'']"
    using ne by (simp add: fun_upd_twist)
  from select_industry_keeps_category [where userContexts = ?st and body = ?body
      and userContext = ?ctx and c = "ascii ''hr''" and w = all_succeed, OF a b]
  have "fst (select_industry all_succeed ?body ?st) (ba_user_id ?body)
      = Some (?ctx(ascii ''industry'' \<mapsto> ascii ''medical''))"
    unfolding w v by simp
  then have r: "fst (select_industry all_succeed ?body ?st) (ascii ''U1'')
      = Some [ascii ''industry'' \<mapsto> ascii ''medical'', ascii ''category'' \<mapsto> ascii ''hr'']"
    unfolding u m .
  show ?thesis by (rule conjI, rule a, rule conjI, rule b, rule r)
qed

section \<open>The slash command and its picker\<close>

lemma matching_command:
  "matching name command_listeners
     = (if name = ascii ''/ai-board'' then [command_ai_board] else [])"
  by (auto simp: matching_def command_listeners_def)

lemma command_ai_board_result:
  "command_ai_board w u userContexts
     = (userContexts,
        case ack_outcome w of
          Some error \<Rightarrow> [Ack, ConsoleError (ascii ''Error handling slash command:'') error]
        | None \<Rightarrow>
            [Ack, Respond command_blocks (ascii ''ephemeral'')]
            @ (case respond_outcome w of
                 None \<Rightarrow> []
               | Some error \<Rightarrow> [ConsoleError (ascii ''Error handling slash command:'') error]))"
  by (simp add: command_ai_board_def split: option.splits)

lemma command_elements:
  "concat (map block_elements command_blocks)
     = [StaticSelect (PlainText [0x696D, 0x7A2E, 0x3092, 0x9078, 0x629E] (Some True))
          (ascii ''command_select_industry'') industry_options]"
  by (simp add: command_blocks_def block_elements_def)

text \<open>
  Claim C7. A slash command, whatever its name and whatever \<open>userContexts\<close> holds, leaves
  \<open>userContexts\<close> unchanged. For \<open>/ai-board\<close> the handler acknowledges and responds
  ephemerally with the industry picker (logging the error if one of the two calls fails);
  what it does is the same for every \<open>userContexts\<close>, so it reads no session either.
\<close>

theorem slash_command_leaves_sessions:
  "fst (dispatch w (SlashCommand name) userContexts) = userContexts
   \<and> snd (dispatch w (SlashCommand (ascii ''/ai-board'')) userContexts)
       = (case ack_outcome w of
            Some error \<Rightarrow> [Ack, ConsoleError (ascii ''Error handling slash command:'') error]
          | None \<Rightarrow>
              [Ack, Respond command_blocks (ascii ''ephemeral'')]
              @ (case respond_outcome w of
                   None \<Rightarrow> []
                 | Some error \<Rightarrow>
                     [ConsoleError (ascii ''Error handling slash command:'') error]))
   \<and> snd (dispatch w (SlashCommand name) userContexts)
       = snd (dispatch w (SlashCommand name) otherContexts)
   \<and> concat (map block_elements command_blocks)
       = [StaticSelect (PlainText [0x696D, 0x7A2E, 0x3092, 0x9078, 0x629E] (Some True))
            (ascii ''command_select_industry'') industry_options]"
proof -
  have a: "fst (dispatch w (SlashCommand name) userContexts) = userContexts"
    by (simp add: dispatch_def matching_command command_ai_board_result)
  have b: "snd (dispatch w (SlashCommand (ascii ''/ai-board'')) userContexts)
       = (case ack_outcome w of
            Some error \<Rightarrow> [Ack, ConsoleError (ascii ''Error handling slash command:'') error]
          | None \<Rightarrow>
              [Ack, Respond command_blocks (ascii ''ephemeral'')]
              @ (case respond_outcome w of
                   None \<Rightarrow> []
                 | Some error \<Rightarrow>
                     [ConsoleError (ascii ''Error handling slash command:'') error]))"
    by (simp add: dispatch_def matching_command command_ai_board_result)
  have c: "snd (dispatch w (SlashCommand name) userContexts)
       = snd (dispatch w (SlashCommand name) otherContexts)"
    by (simp add: dispatch_def matching_command command_ai_board_result)
  show ?thesis by (rule conjI, rule a, rule conjI, rule b, rule conjI, rule c, rule command_elements)
qed

theorem slash_command_leaves_sessions_witness:
  "dispatch all_succeed (SlashCommand (ascii ''/ai-board''))
       [ascii ''U1'' \<mapsto> [ascii ''industry'' \<mapsto> ascii ''retail'']]
     = ([ascii ''U1'' \<mapsto> [ascii ''industry'' \<mapsto> ascii ''retail'']],
        [Ack, Respond command_blocks (ascii ''ephemeral'')])"
proof -
  let ?st = "[ascii ''U1'' \<mapsto> [ascii ''industry'' \<mapsto> ascii ''retail'']]"
  have w: "ack_outcome all_succeed = None" "respond_outcome all_succeed = None"
    by (simp_all add: all_succeed_def)
  note t = slash_command_leaves_sessions [where w = all_succeed and name = "ascii ''/ai-board''"
      and userContexts = ?st and otherContexts = ?st, unfolded w]
  from t have "fst (dispatch all_succeed (SlashCommand (ascii ''/ai-board'')) ?st) = ?st"
    by (rule conjunct1)
  moreover from t have "snd (dispatch all_succeed (SlashCommand (ascii ''/ai-board'')) ?st)
      = [Ack, Respond command_blocks (ascii ''ephemeral'')]"
    by simp
  ultimately show ?thesis by (simp add: prod_eq_iff)
qed

lemma action_listener_ids:
  "map fst action_listeners
     = [ascii ''select_industry'', ascii ''category_accounting'', ascii ''category_hr'',
        ascii ''category_admin'', ascii ''category_sales'']"
  by (simp add: action_listeners_def CATEGORIES_def ascii_def)

lemma matching_unregistered:
  "ident \<notin> set (map fst listeners) \<Longrightarrow> matching ident listeners = []"
  by (induction listeners) (auto simp: matching_def)

lemma picker_not_registered:
  "ascii ''command_select_industry'' \<notin> set (map fst action_listeners)"
  by (simp only: action_listener_ids) (simp add: ascii_def)

text \<open>
  Claim C10. The action listeners are registered under \<open>select_industry\<close> and the four
  \<open>category_...\<close> identifiers and no other. The picker of the slash command's response
  has the action id \<open>command_select_industry\<close>, which is none of them: a block action
  with that id runs no listener, so it writes no session and makes no call at all.
\<close>

theorem picker_action_has_no_listener:
  "map fst action_listeners
     = [ascii ''select_industry'', ascii ''category_accounting'', ascii ''category_hr'',
        ascii ''category_admin'', ascii ''category_sales'']
   \<and> map element_action_id (concat (map block_elements command_blocks))
       = [ascii ''command_select_industry'']
   \<and> ascii ''command_select_industry'' \<notin> set (map fst action_listeners)
   \<and> (\<forall>body a others.
         ba_actions body = a # others \<and> action_id a = ascii ''command_select_industry''
         \<longrightarrow> dispatch w (BlockAction body) userContexts = (userContexts, []))"
proof -
  have e: "map element_action_id (concat (map block_elements command_blocks))
       = [ascii ''command_select_industry'']"
    by (simp only: command_elements) (simp add: element_action_id_def)
  have d: "\<forall>body a others.
         ba_actions body = a # others \<and> action_id a = ascii ''command_select_industry''
         \<longrightarrow> dispatch w (BlockAction body) userContexts = (userContexts, [])"
    by (simp add: dispatch_def matching_unregistered [OF picker_not_registered])
  show ?thesis
    by (rule conjI, rule action_listener_ids, rule conjI, rule e, rule conjI,
        rule picker_not_registered, rule d)
qed

theorem picker_action_has_no_listener_witness:
  "ba_actions (click (ascii ''command_select_industry'') (Some (ascii ''retail'')))
     = [\<lparr>action_id = ascii ''command_select_industry'',
         selected_option = Some (ascii ''retail'')\<rparr>]
   \<and> dispatch all_succeed
         (BlockAction (click (ascii ''command_select_industry'') (Some (ascii ''retail''))))
         Map.empty
       = (Map.empty, [])"
proof -
  let ?body = "click (ascii ''command_select_industry'') (Some (ascii ''retail''))"
  let ?a = "\<lparr>action_id = ascii ''command_select_industry'',
              selected_option = Some (ascii ''retail'')\<rparr>"
  have b: "ba_actions ?body = ?a # []" by (simp add: click_def)
  have i: "action_id ?a = ascii ''command_select_industry''" by simp
  from picker_action_has_no_listener [where w = all_succeed and userContexts = Map.empty]
  have "\<forall>body a others.
         ba_actions body = a # others \<and> action_id a = ascii ''command_select_industry''
         \<longrightarrow> dispatch all_succeed (BlockAction body) Map.empty = (Map.empty, [])"
    by (elim conjE)
  then have "dispatch all_succeed (BlockAction ?body) Map.empty = (Map.empty, [])"
    using b i by blast
  with b show ?thesis by (rule conjI)
qed

section \<open>Modal submission and the completion client\<close>

lemma generateAIResponse_failure:
  assumes "create_outcome w = Rejects e
         \<or> (\<exists>response. create_outcome w = Resolves response \<and> first_content response = Inl e)"
  shows "generateAIResponse w prompt industry category
       = (Str fallback_message,
          [ChatCompletionsCreate (completion_request_for prompt industry category),
           ConsoleError (ascii ''OpenAI API Error:'') e])"
  using assms by (auto simp: generateAIResponse_def Let_def)

lemma generateAIResponse_success:
  assumes "create_outcome w = Resolves response" "first_content response = Inr content"
  shows "generateAIResponse w prompt industry category
       = (content, [ChatCompletionsCreate (completion_request_for prompt industry category)])"
  using assms by (simp add: generateAIResponse_def Let_def)

lemma modal_submit_shape:
  "(\<exists>error. modal_submit w view userContexts
       = (userContexts,
          [Ack, ConsoleError (ascii ''Error handling modal submission:'') error]))
   \<or> (\<exists>query industry category.
         modal_submit w view userContexts
           = (userContexts,
              [Ack] @ snd (generateAIResponse w query industry category)
              @ [ChatPostMessage (vs_user_id view)
                   (fst (generateAIResponse w query industry category))
                   [Section (Mrkdwn (answer_text industry category
                      (fst (generateAIResponse w query industry category))))]]
              @ (case post_message_outcome w of
                   None \<Rightarrow> []
                 | Some error \<Rightarrow>
                     [ConsoleError (ascii ''Error handling modal submission:'') error])))"
  unfolding modal_submit_def Let_def
  by (simp add: case_prod_beta split: option.split sum.split) blast

lemma table_lookup_string:
  "table_lookup table (Some (JString k)) = Inr (get_property table k)"
  by (simp add: table_lookup_def)

lemma modal_submit_round_tripped:
  assumes "ack_outcome w = None"
    and "vs_private_metadata view
           = JSON_stringify [(ascii ''industry'', I), (ascii ''category'', C)]"
    and "query_value view = Inr query"
  shows "modal_submit w view userContexts
       = (userContexts,
          [Ack]
          @ snd (generateAIResponse w query (get_property INDUSTRIES I) (get_property CATEGORIES C))
          @ [ChatPostMessage (vs_user_id view)
               (fst (generateAIResponse w query (get_property INDUSTRIES I)
                       (get_property CATEGORIES C)))
               [Section (Mrkdwn (answer_text (get_property INDUSTRIES I)
                  (get_property CATEGORIES C)
                  (fst (generateAIResponse w query (get_property INDUSTRIES I)
                          (get_property CATEGORIES C)))))]]
          @ (case post_message_outcome w of
               None \<Rightarrow> []
             | Some error \<Rightarrow>
                 [ConsoleError (ascii ''Error handling modal submission:'') error]))"
  unfolding modal_submit_def Let_def
  by (simp add: assms JSON_parse_stringify_pair destructure_pair table_lookup_string
        split: prod.split)

lemma answer_text_ends:
  "answer_text industry category (Str r)
     = (ascii ''*'' @ template_prop industry @ ascii '' - '' @ template_prop category
        @ [0x306B, 0x95A2, 0x3059, 0x308B, 0x56DE, 0x7B54] @ ascii ''*'' @ [0x000A, 0x000A]) @ r"
  by (simp add: answer_text_def template_response_def)

lemma fallback_not_empty: "fallback_message \<noteq> []"
  by (simp add: fallback_message_def)

lemma modal_submit_store: "fst (modal_submit w view userContexts) = userContexts"
  using modal_submit_shape [of w view userContexts] by auto

lemma stringify_retail_hr:
  "JSON_stringify [(ascii ''industry'', ascii ''retail''), (ascii ''category'', ascii ''hr'')]
     = ascii ''{\"industry\":\"retail\",\"category\":\"hr\"}''"
  by (simp add: JSON_stringify_def QuoteJSONString_def ascii_def is_high_surrogate_def
        is_low_surrogate_def)

text \<open>
  Claim C3. Whenever the completion call fails with a thrown value \<open>e\<close> of any kind (the
  call is rejected, or its response lacks the part that is read), \<open>generateAIResponse\<close>
  returns the fixed fallback string, which is not empty, after logging \<open>e\<close>; nothing is
  thrown to the caller. In the submit handler, whenever the completion call is made, the
  error is logged and a message is posted to the user whose text is the fallback string and
  whose block ends with it; for metadata written by the category action the calls are exactly
  the acknowledgement, the completion call, the log and that message. \<open>userContexts\<close> is
  left as it was.
\<close>

theorem completion_failure_falls_back:
  assumes "create_outcome w = Rejects e
         \<or> (\<exists>response. create_outcome w = Resolves response \<and> first_content response = Inl e)"
  shows "generateAIResponse w prompt industry category
           = (Str fallback_message,
              [ChatCompletionsCreate (completion_request_for prompt industry category),
               ConsoleError (ascii ''OpenAI API Error:'') e])
       \<and> fallback_message \<noteq> []
       \<and> fst (modal_submit w view userContexts) = userContexts
       \<and> (\<forall>request.
             ChatCompletionsCreate request \<in> set (snd (modal_submit w view userContexts))
             \<longrightarrow> ConsoleError (ascii ''OpenAI API Error:'') e
                   \<in> set (snd (modal_submit w view userContexts))
               \<and> (\<exists>labels.
                     ChatPostMessage (vs_user_id view) (Str fallback_message)
                       [Section (Mrkdwn (labels @ fallback_message))]
                     \<in> set (snd (modal_submit w view userContexts))))
       \<and> (\<forall>I C query.
             ack_outcome w = None
             \<and> vs_private_metadata view
                 = JSON_stringify [(ascii ''industry'', I), (ascii ''category'', C)]
             \<and> query_value view = Inr query
             \<longrightarrow> snd (modal_submit w view userContexts)
                 = [Ack,
                    ChatCompletionsCreate
                      (completion_request_for query (get_property INDUSTRIES I)
                         (get_property CATEGORIES C)),
                    ConsoleError (ascii ''OpenAI API Error:'') e,
                    ChatPostMessage (vs_user_id view) (Str fallback_message)
                      [Section (Mrkdwn
                         (answer_text (get_property INDUSTRIES I) (get_property CATEGORIES C)
                            (Str fallback_message)))]]
                   @ (case post_message_outcome w of
                        None \<Rightarrow> []
                      | Some error \<Rightarrow>
                          [ConsoleError (ascii ''Error handling modal submission:'') error]))"
proof -
  note gen = generateAIResponse_failure [OF assms]
  have explicit: "snd (modal_submit w view userContexts)
                 = [Ack,
                    ChatCompletionsCreate
                      (completion_request_for query (get_property INDUSTRIES I)
                         (get_property CATEGORIES C)),
                    ConsoleError (ascii ''OpenAI API Error:'') e,
                    ChatPostMessage (vs_user_id view) (Str fallback_message)
                      [Section (Mrkdwn
                         (answer_text (get_property INDUSTRIES I) (get_property CATEGORIES C)
                            (Str fallback_message)))]]
                   @ (case post_message_outcome w of
                        None \<Rightarrow> []
                      | Some error \<Rightarrow>
                          [ConsoleError (ascii ''Error handling modal submission:'') error])"
    if "ack_outcome w = None
        \<and> vs_private_metadata view
            = JSON_stringify [(ascii ''industry'', I), (ascii ''category'', C)]
        \<and> query_value view = Inr query"
    for I C query
  proof -
    from that have a: "ack_outcome w = None"
      and m: "vs_private_metadata view
            = JSON_stringify [(ascii ''industry'', I), (ascii ''category'', C)]"
      and q: "query_value view = Inr query"
      by simp_all
    show ?thesis
      unfolding modal_submit_round_tripped [OF a m q] gen by simp
  qed
  have called: "ConsoleError (ascii ''OpenAI API Error:'') e
                   \<in> set (snd (modal_submit w view userContexts))
               \<and> (\<exists>labels.
                     ChatPostMessage (vs_user_id view) (Str fallback_message)
                       [Section (Mrkdwn (labels @ fallback_message))]
                     \<in> set (snd (modal_submit w view userContexts)))"
    if "ChatCompletionsCreate request \<in> set (snd (modal_submit w view userContexts))"
    for request
  proof -
    from modal_submit_shape [of w view userContexts] that
    obtain query il cl where m: "modal_submit w view userContexts
           = (userContexts,
              [Ack] @ snd (generateAIResponse w query il cl)
              @ [ChatPostMessage (vs_user_id view)
                   (fst (generateAIResponse w query il cl))
                   [Section (Mrkdwn (answer_text il cl
                      (fst (generateAIResponse w query il cl))))]]
              @ (case post_message_outcome w of
                   None \<Rightarrow> []
                 | Some error \<Rightarrow>
                     [ConsoleError (ascii ''Error handling modal submission:'') error]))"
      by auto
    have 1: "ConsoleError (ascii ''OpenAI API Error:'') e
               \<in> set (snd (modal_submit w view userContexts))"
      unfolding m gen by simp
    have "ChatPostMessage (vs_user_id view) (Str fallback_message)
            [Section (Mrkdwn (answer_text il cl (Str fallback_message)))]
          \<in> set (snd (modal_submit w view userContexts))"
      unfolding m gen by simp
    then have 2: "\<exists>labels.
                     ChatPostMessage (vs_user_id view) (Str fallback_message)
                       [Section (Mrkdwn (labels @ fallback_message))]
                     \<in> set (snd (modal_submit w view userContexts))"
      unfolding answer_text_ends by (rule exI)
    from 1 2 show ?thesis by (rule conjI)
  qed
  show ?thesis
    using gen fallback_not_empty modal_submit_store [of w view userContexts] called explicit
    by blast
qed

theorem completion_failure_falls_back_witness:
  "create_outcome completion_down = Rejects (Failure (ascii ''quota''))
   \<and> modal_submit completion_down
         (submission (ascii ''{\"industry\":\"retail\",\"category\":\"hr\"}'') (ascii ''How?''))
         Map.empty
       = (Map.empty,
          [Ack,
           ChatCompletionsCreate
             (completion_request_for (Str (ascii ''How?'')) (Own [0x5C0F, 0x58F2, 0x696D])
                (Own [0x4EBA, 0x4E8B])),
           ConsoleError (ascii ''OpenAI API Error:'') (Failure (ascii ''quota'')),
           ChatPostMessage (ascii ''U1'') (Str fallback_message)
             [Section (Mrkdwn
                (ascii ''*'' @ [0x5C0F, 0x58F2, 0x696D] @ ascii '' - '' @ [0x4EBA, 0x4E8B]
                 @ [0x306B, 0x95A2, 0x3059, 0x308B, 0x56DE, 0x7B54] @ ascii ''*''
                 @ [0x000A, 0x000A] @ fallback_message))]])"
proof -
  let ?view = "submission (ascii ''{\"industry\":\"retail\",\"category\":\"hr\"}'') (ascii ''How?'')"
  have c: "create_outcome completion_down = Rejects (Failure (ascii ''quota''))"
    by (simp add: completion_down_def)
  then have h: "create_outcome completion_down = Rejects (Failure (ascii ''quota''))
         \<or> (\<exists>response. create_outcome completion_down = Resolves response
               \<and> first_content response = Inl (Failure (ascii ''quota'')))"
    by (rule disjI1)
  have a: "ack_outcome completion_down = None"
    by (simp add: completion_down_def all_succeed_def)
  have p: "post_message_outcome completion_down = None"
    by (simp add: completion_down_def all_succeed_def)
  have m: "vs_private_metadata ?view
         = JSON_stringify [(ascii ''industry'', ascii ''retail''), (ascii ''category'', ascii ''hr'')]"
    by (simp only: stringify_retail_hr) (simp add: submission_def)
  have q: "query_value ?view = Inr (Str (ascii ''How?''))"
    by (simp add: query_value_def submission_def)
  have u: "vs_user_id ?view = ascii ''U1''" by (simp add: submission_def)
  have li: "get_property INDUSTRIES (ascii ''retail'') = Own [0x5C0F, 0x58F2, 0x696D]"
    by (simp add: get_property_def INDUSTRIES_def ascii_def)
  have lc: "get_property CATEGORIES (ascii ''hr'') = Own [0x4EBA, 0x4E8B]"
    by (simp add: get_property_def CATEGORIES_def ascii_def)
  from completion_failure_falls_back [OF h, where prompt = "Str (ascii ''How?'')"
      and industry = "Own [0x5C0F, 0x58F2, 0x696D]" and category = "Own [0x4EBA, 0x4E8B]"
      and view = ?view and userContexts = Map.empty]
  have g: "generateAIResponse completion_down (Str (ascii ''How?''))
             (Own [0x5C0F, 0x58F2, 0x696D]) (Own [0x4EBA, 0x4E8B])
           = (Str fallback_message,
              [ChatCompletionsCreate
                 (completion_request_for (Str (ascii ''How?'')) (Own [0x5C0F, 0x58F2, 0x696D])
                    (Own [0x4EBA, 0x4E8B])),
               ConsoleError (ascii ''OpenAI API Error:'') (Failure (ascii ''quota''))])"
    by (rule conjunct1)
  have "modal_submit completion_down ?view Map.empty
       = (Map.empty,
          [Ack,
           ChatCompletionsCreate
             (completion_request_for (Str (ascii ''How?'')) (Own [0x5C0F, 0x58F2, 0x696D])
                (Own [0x4EBA, 0x4E8B])),
           ConsoleError (ascii ''OpenAI API Error:'') (Failure (ascii ''quota'')),
           ChatPostMessage (ascii ''U1'') (Str fallback_message)
             [Section (Mrkdwn
                (ascii ''*'' @ [0x5C0F, 0x58F2, 0x696D] @ ascii '' - '' @ [0x4EBA, 0x4E8B]
                 @ [0x306B, 0x95A2, 0x3059, 0x308B, 0x56DE, 0x7B54] @ ascii ''*''
                 @ [0x000A, 0x000A] @ fallback_message))]])"
    unfolding modal_submit_round_tripped [OF a m q] li lc g p u
    by (simp add: answer_text_def template_prop_def template_response_def)
  with c show ?thesis by (rule conjI)
qed

lemma table_label:
  assumes "map_of table key = Some label"
  shows "get_property table key = Own label"
  using assms by (simp add: get_property_def)

text \<open>The two reads of the handler on the payload itself: the query text is the \<open>value\<close>
  found under \<open>query_block\<close> and \<open>query_input\<close>, taken as it is, and the completion text
  is the \<open>content\<close> of the first choice's message, taken as it is.\<close>

lemma query_value_read:
  assumes "vs_state_values view (ascii ''query_block'') = Some query_block"
    and "query_block (ascii ''query_input'') = Some v"
  shows "query_value view = Inr v"
  using assms by (simp add: query_value_def)

lemma query_value_missing:
  "vs_state_values view (ascii ''query_block'') = None \<Longrightarrow> query_value view = Inl TypeError"
  "vs_state_values view (ascii ''query_block'') = Some query_block \<Longrightarrow>
   query_block (ascii ''query_input'') = None \<Longrightarrow> query_value view = Inl TypeError"
  by (simp_all add: query_value_def)

lemma first_content_read:
  "first_content (ChatCompletion (Some (Choice (Some (ChatMessage content)) # others)))
     = Inr content"
  by (simp add: first_content_def)

lemma first_content_missing:
  "first_content (ChatCompletion None) = Inl TypeError"
  "first_content (ChatCompletion (Some [])) = Inl TypeError"
  "first_content (ChatCompletion (Some (Choice None # others))) = Inl TypeError"
  by (simp_all add: first_content_def)

text \<open>
  Claim C4. For a submission of the query modal whose metadata was written for an industry
  \<open>I\<close> and a category \<open>C\<close> of the fixed tables and whose input holds the query text
  \<open>Q\<close>, once acknowledged, the completion request has exactly two messages: the system
  instruction built around the two display names, and the user message whose content is
  \<open>Q\<close> as it is. When the first choice of the completion holds the text \<open>R\<close>, the message
  posted to the user has \<open>R\<close> as its text and a block made of the two display names
  followed by \<open>R\<close>.
\<close>

theorem modal_submit_prompt_and_answer:
  assumes "map_of INDUSTRIES I = Some industry_label"
    and "map_of CATEGORIES C = Some category_label"
    and "vs_callback_id view = ascii ''modal_submit''"
    and "vs_private_metadata view
           = JSON_stringify [(ascii ''industry'', I), (ascii ''category'', C)]"
    and "vs_state_values view (ascii ''query_block'') = Some query_block"
    and "query_block (ascii ''query_input'') = Some (Str Q)"
    and "ack_outcome w = None"
    and "create_outcome w
           = Resolves (ChatCompletion (Some (Choice (Some (ChatMessage (Str R))) # others)))"
  shows "dispatch w (ViewSubmission view) userContexts
       = (userContexts,
          [Ack,
           ChatCompletionsCreate
             \<lparr>model = ascii ''gpt-4'',
              messages =
                [(System,
                  Str ([0x3042, 0x306A, 0x305F, 0x306F] @ industry_label
                       @ [0x5411, 0x3051, 0x306E] @ category_label
                       @ [0x5C02, 0x9580, 0x30A2, 0x30B7, 0x30B9, 0x30BF, 0x30F3, 0x30C8, 0x3067,
                          0x3059, 0x3002, 0x000A]
                       @ ascii ''                   ''
                       @ [0x5C02, 0x9580, 0x7684, 0x304B, 0x3064, 0x5B9F, 0x7528, 0x7684, 0x306A,
                          0x30A2, 0x30C9, 0x30D0, 0x30A4, 0x30B9, 0x3092, 0x63D0, 0x4F9B, 0x3057,
                          0x3066, 0x304F, 0x3060, 0x3055, 0x3044, 0x3002])),
                 (User, Str Q)],
              temperature = 7 / 10\<rparr>,
           ChatPostMessage (vs_user_id view) (Str R)
             [Section (Mrkdwn
                (ascii ''*'' @ industry_label @ ascii '' - '' @ category_label
                 @ [0x306B, 0x95A2, 0x3059, 0x308B, 0x56DE, 0x7B54] @ ascii ''*''
                 @ [0x000A, 0x000A] @ R))]]
          @ (case post_message_outcome w of
               None \<Rightarrow> []
             | Some error \<Rightarrow>
                 [ConsoleError (ascii ''Error handling modal submission:'') error]))"
proof -
  have d: "dispatch w (ViewSubmission view) userContexts = modal_submit w view userContexts"
    by (simp add: dispatch_def matching_def view_listeners_def assms(3) split: prod.split)
  note li = table_label [OF assms(1)]
  note lc = table_label [OF assms(2)]
  have q: "query_value view = Inr (Str Q)"
    using assms(5,6) by (simp add: query_value_def)
  have r: "first_content (ChatCompletion (Some (Choice (Some (ChatMessage (Str R))) # others)))
         = Inr (Str R)"
    by (simp add: first_content_def)
  note gen = generateAIResponse_success [OF assms(8) r]
  show ?thesis
    unfolding d modal_submit_round_tripped [OF assms(7,4) q] li lc gen
    by (simp add: completion_request_for_def system_content_def or_empty_def answer_text_def
          template_prop_def template_response_def)
qed

theorem modal_submit_prompt_and_answer_witness:
  "map_of INDUSTRIES (ascii ''retail'') = Some [0x5C0F, 0x58F2, 0x696D]
   \<and> map_of CATEGORIES (ascii ''hr'') = Some [0x4EBA, 0x4E8B]
   \<and> vs_state_values
         (submission (ascii ''{\"industry\":\"retail\",\"category\":\"hr\"}'') (ascii ''How?''))
         (ascii ''query_block'')
       = Some [ascii ''query_input'' \<mapsto> Str (ascii ''How?'')]
   \<and> create_outcome all_succeed
       = Resolves (ChatCompletion (Some [Choice (Some (ChatMessage (Str (ascii ''Answer''))))]))
   \<and> dispatch all_succeed
         (ViewSubmission
            (submission (ascii ''{\"industry\":\"retail\",\"category\":\"hr\"}'') (ascii ''How?'')))
         Map.empty
       = (Map.empty,
          [Ack,
           ChatCompletionsCreate
             \<lparr>model = ascii ''gpt-4'',
              messages =
                [(System,
                  Str ([0x3042, 0x306A, 0x305F, 0x306F] @ [0x5C0F, 0x58F2, 0x696D]
                       @ [0x5411, 0x3051, 0x306E] @ [0x4EBA, 0x4E8B]
                       @ [0x5C02, 0x9580, 0x30A2, 0x30B7, 0x30B9, 0x30BF, 0x30F3, 0x30C8, 0x3067,
                          0x3059, 0x3002, 0x000A]
                       @ ascii ''                   ''
                       @ [0x5C02, 0x9580, 0x7684, 0x304B, 0x3064, 0x5B9F, 0x7528, 0x7684, 0x306A,
                          0x30A2, 0x30C9, 0x30D0, 0x30A4, 0x30B9, 0x3092, 0x63D0, 0x4F9B, 0x3057,
                          0x3066, 0x304F, 0x3060, 0x3055, 0x3044, 0x3002])),
                 (User, Str (ascii ''How?''))],
              temperature = 7 / 10\<rparr>,
           ChatPostMessage (ascii ''U1'') (Str (ascii ''Answer''))
             [Section (Mrkdwn
                (ascii ''*'' @ [0x5C0F, 0x58F2, 0x696D] @ ascii '' - '' @ [0x4EBA, 0x4E8B]
                 @ [0x306B, 0x95A2, 0x3059, 0x308B, 0x56DE, 0x7B54] @ ascii ''*''
                 @ [0x000A, 0x000A] @ ascii ''Answer''))]])"
proof -
  let ?view = "submission (ascii ''{\"industry\":\"retail\",\"category\":\"hr\"}'') (ascii ''How?'')"
  let ?block = "[ascii ''query_input'' \<mapsto> Str (ascii ''How?'')]"
  have ki: "map_of INDUSTRIES (ascii ''retail'') = Some [0x5C0F, 0x58F2, 0x696D]"
    by (simp add: INDUSTRIES_def ascii_def)
  have kc: "map_of CATEGORIES (ascii ''hr'') = Some [0x4EBA, 0x4E8B]"
    by (simp add: CATEGORIES_def ascii_def)
  have cb: "vs_callback_id ?view = ascii ''modal_submit''" by (simp add: submission_def)
  have m: "vs_private_metadata ?view
         = JSON_stringify [(ascii ''industry'', ascii ''retail''), (ascii ''category'', ascii ''hr'')]"
    by (simp only: stringify_retail_hr) (simp add: submission_def)
  have qb: "vs_state_values ?view (ascii ''query_block'') = Some ?block"
    by (simp add: submission_def)
  have qi: "?block (ascii ''query_input'') = Some (Str (ascii ''How?''))" by simp
  have a: "ack_outcome all_succeed = None" by (simp add: all_succeed_def)
  have c: "create_outcome all_succeed
         = Resolves (ChatCompletion (Some (Choice (Some (ChatMessage (Str (ascii ''Answer'')))) # [])))"
    by (simp add: all_succeed_def)
  have p: "post_message_outcome all_succeed = None" by (simp add: all_succeed_def)
  have u: "vs_user_id ?view = ascii ''U1''" by (simp add: submission_def)
  note t = modal_submit_prompt_and_answer [OF ki kc cb m qb qi a c, where userContexts = Map.empty,
      unfolded p u option.case append_Nil2]
  show ?thesis
    by (rule conjI, rule ki, rule conjI, rule kc, rule conjI, rule qb, rule conjI, rule c,
        rule t)
qed

end
